theory Spec2Isabelle
  imports Complex_Main "HOL-Library.Word"
begin

section \<open>The scan step of the media scanner: data model\<close>

text \<open>
  Embedding of \<^verbatim>\<open>src/libs/services/scanner/impl/ScanStepScanFiles.cpp\<close>.
  Database pointers (\<^verbatim>\<open>Artist::pointer\<close>, \<^verbatim>\<open>Track::pointer\<close>, ...) are
  identifiers into the tables of an explicit session value; a null pointer is \<open>None\<close>.
  Every function that writes to the database takes the session and returns the new one.
\<close>

type_synonym path = string
type_synonym UUID = string
type_synonym IdType = nat
type_synonym size_t = "64 word"

text \<open>\<^verbatim>\<open>Wt::WDateTime\<close>: milliseconds since the epoch; \<^verbatim>\<open>toTime_t\<close> drops to seconds.\<close>

type_synonym WDateTime = int

definition toTime_t :: "WDateTime \<Rightarrow> int" where
  "toTime_t t = t div 1000"

text \<open>
  Modelled from the spec: \<^verbatim>\<open>Wt::WDate\<close> is not part of the sources; a date is either
  absent (not valid) or a year, month and day.
\<close>

datatype WDate = InvalidDate | Date int int int

fun isValid :: "WDate \<Rightarrow> bool" where
  "isValid InvalidDate = False"
| "isValid (Date y m d) = True"

subsection \<open>Parsed metadata (\<^verbatim>\<open>MetaData::Artist\<close>, \<^verbatim>\<open>MetaData::Album\<close>, \<^verbatim>\<open>MetaData::Track\<close>)\<close>

record MetaArtist =
  name :: string
  sortName :: "string option"
  musicBrainzArtistID :: "UUID option"

record MetaAlbum =
  albumName :: string
  musicBrainzAlbumID :: "UUID option"

record MetaTrack =
  recordingMBID :: "UUID option"
  trackMBID :: "UUID option"
  audioStreams :: "nat list"
  duration :: int
  title :: string
  artists :: "MetaArtist list"
  albumArtists :: "MetaArtist list"
  conductorArtists :: "MetaArtist list"
  composerArtists :: "MetaArtist list"
  lyricistArtists :: "MetaArtist list"
  mixerArtists :: "MetaArtist list"
  performerArtists :: "(string \<times> MetaArtist list) list"
  producerArtists :: "MetaArtist list"
  remixerArtists :: "MetaArtist list"
  album :: "MetaAlbum option"
  clusters :: "(string \<times> string list) list"
  trackNumber :: "nat option"
  discNumber :: "nat option"
  totalTrack :: "nat option"
  totalDisc :: "nat option"
  discSubtitle :: string
  date :: WDate
  originalDate :: WDate
  hasCover :: bool
  copyright :: string
  copyrightURL :: string
  trackReplayGain :: "real option"
  albumReplayGain :: "real option"

subsection \<open>Catalog entities and the session\<close>

datatype TrackArtistLinkType =
  Artist | ReleaseArtist | Conductor | Composer | Lyricist | Mixer | Performer | Producer | Remixer

record DbArtist =
  artist_id :: IdType
  artist_name :: string
  artist_sortName :: "string option"
  artist_MBID :: "UUID option"

record DbRelease =
  release_id :: IdType
  release_name :: string
  release_MBID :: "UUID option"

record DbClusterType =
  clusterType_id :: IdType
  clusterType_name :: string

record DbCluster =
  cluster_id :: IdType
  cluster_type :: IdType
  cluster_name :: string

record DbTrackArtistLink =
  link_id :: IdType
  link_track :: IdType
  link_artist :: IdType
  link_type :: TrackArtistLinkType
  link_role :: string

record DbTrackFeatures =
  features_id :: IdType
  features_track :: IdType

record DbTrack =
  track_id :: IdType
  track_path :: path
  track_scanVersion :: nat
  track_release :: "IdType option"
  track_clusters :: "IdType set"
  track_lastWriteTime :: WDateTime
  track_name :: string
  track_duration :: int
  track_addedTime :: WDateTime
  track_trackNumber :: nat
  track_discNumber :: nat
  track_totalTrack :: "nat option"
  track_totalDisc :: "nat option"
  track_discSubtitle :: string
  track_date :: WDate
  track_originalDate :: WDate
  track_recordingMBID :: "UUID option"
  track_trackMBID :: "UUID option"
  track_hasCover :: bool
  track_copyright :: string
  track_copyrightURL :: string
  track_trackReplayGain :: "real option"
  track_releaseReplayGain :: "real option"

record Session =
  db_tracks :: "DbTrack list"
  db_artists :: "DbArtist list"
  db_releases :: "DbRelease list"
  db_clusterTypes :: "DbClusterType list"
  db_clusters :: "DbCluster list"
  db_links :: "DbTrackArtistLink list"
  db_features :: "DbTrackFeatures list"

text \<open>
  Modelled from the spec: the catalog store (\<^verbatim>\<open>Session::create\<close>, the \<^verbatim>\<open>find\<close>
  functions, \<^verbatim>\<open>modify\<close>, \<^verbatim>\<open>remove\<close>) is not part of the sources. The spec gives
  find-by-path, find-by-MBID, find-by-name (zero or more matches), create, modify in place
  and remove, and an identity assigned at creation. Tables keep their rows in creation
  order; a created row gets an identifier above every identifier of its table; a sort-name
  is optional and absent on a fresh artist; the artist links of a track go with the track.
  \<^verbatim>\<open>src/database/Track.cpp\<close>, an earlier version of the track entity, has the same
  shape: a constructor that stores the path and sets the track and disc numbers to zero, a
  lookup by path, and a setter that clears a set and fills it from a vector.
\<close>

definition freshId :: "IdType list \<Rightarrow> IdType" where
  "freshId ids = Suc (foldr max ids 0)"

definition findArtistByMBID :: "Session \<Rightarrow> UUID \<Rightarrow> DbArtist option" where
  "findArtistByMBID s mbid = find (\<lambda>a. artist_MBID a = Some mbid) (db_artists s)"

definition findArtistsByName :: "Session \<Rightarrow> string \<Rightarrow> DbArtist list" where
  "findArtistsByName s n = filter (\<lambda>a. artist_name a = n) (db_artists s)"

definition modifyArtist :: "Session \<Rightarrow> IdType \<Rightarrow> (DbArtist \<Rightarrow> DbArtist) \<Rightarrow> Session" where
  "modifyArtist s i f = s\<lparr>db_artists := map (\<lambda>a. if artist_id a = i then f a else a) (db_artists s)\<rparr>"

definition newArtist :: "Session \<Rightarrow> string \<Rightarrow> DbArtist" where
  "newArtist s n = \<lparr>artist_id = freshId (map artist_id (db_artists s)), artist_name = n,
                    artist_sortName = None, artist_MBID = None\<rparr>"

definition findReleaseByMBID :: "Session \<Rightarrow> UUID \<Rightarrow> DbRelease option" where
  "findReleaseByMBID s mbid = find (\<lambda>r. release_MBID r = Some mbid) (db_releases s)"

definition findReleasesByName :: "Session \<Rightarrow> string \<Rightarrow> DbRelease list" where
  "findReleasesByName s n = filter (\<lambda>r. release_name r = n) (db_releases s)"

definition modifyRelease :: "Session \<Rightarrow> IdType \<Rightarrow> (DbRelease \<Rightarrow> DbRelease) \<Rightarrow> Session" where
  "modifyRelease s i f = s\<lparr>db_releases := map (\<lambda>r. if release_id r = i then f r else r) (db_releases s)\<rparr>"

definition createRelease :: "Session \<Rightarrow> string \<Rightarrow> UUID option \<Rightarrow> IdType \<times> Session" where
  "createRelease s n mbid =
     (let i = freshId (map release_id (db_releases s))
      in (i, s\<lparr>db_releases := db_releases s @ [\<lparr>release_id = i, release_name = n, release_MBID = mbid\<rparr>]\<rparr>))"

definition findClusterType :: "Session \<Rightarrow> string \<Rightarrow> DbClusterType option" where
  "findClusterType s n = find (\<lambda>c. clusterType_name c = n) (db_clusterTypes s)"

definition getCluster :: "Session \<Rightarrow> DbClusterType \<Rightarrow> string \<Rightarrow> DbCluster option" where
  "getCluster s ct n =
     find (\<lambda>c. cluster_type c = clusterType_id ct \<and> cluster_name c = n) (db_clusters s)"

definition createCluster :: "Session \<Rightarrow> DbClusterType \<Rightarrow> string \<Rightarrow> IdType \<times> Session" where
  "createCluster s ct n =
     (let i = freshId (map cluster_id (db_clusters s))
      in (i, s\<lparr>db_clusters := db_clusters s @
                 [\<lparr>cluster_id = i, cluster_type = clusterType_id ct, cluster_name = n\<rparr>]\<rparr>))"

definition findByPath :: "Session \<Rightarrow> path \<Rightarrow> DbTrack option" where
  "findByPath s p = find (\<lambda>t. track_path t = p) (db_tracks s)"

definition findByRecordingMBID :: "Session \<Rightarrow> UUID \<Rightarrow> DbTrack list" where
  "findByRecordingMBID s mbid = filter (\<lambda>t. track_recordingMBID t = Some mbid) (db_tracks s)"

definition modifyTrack :: "Session \<Rightarrow> IdType \<Rightarrow> (DbTrack \<Rightarrow> DbTrack) \<Rightarrow> Session" where
  "modifyTrack s i f = s\<lparr>db_tracks := map (\<lambda>t. if track_id t = i then f t else t) (db_tracks s)\<rparr>"

definition removeTrack :: "Session \<Rightarrow> IdType \<Rightarrow> Session" where
  "removeTrack s i = s\<lparr>db_tracks := filter (\<lambda>t. track_id t \<noteq> i) (db_tracks s),
                        db_links := filter (\<lambda>l. link_track l \<noteq> i) (db_links s)\<rparr>"

definition createTrack :: "Session \<Rightarrow> path \<Rightarrow> IdType \<times> Session" where
  "createTrack s p =
     (let i = freshId (map track_id (db_tracks s))
      in (i, s\<lparr>db_tracks := db_tracks s @
                 [\<lparr>track_id = i, track_path = p, track_scanVersion = 0, track_release = None,
                   track_clusters = {}, track_lastWriteTime = 0, track_name = [],
                   track_duration = 0, track_addedTime = 0, track_trackNumber = 0,
                   track_discNumber = 0, track_totalTrack = None, track_totalDisc = None,
                   track_discSubtitle = [], track_date = InvalidDate,
                   track_originalDate = InvalidDate, track_recordingMBID = None,
                   track_trackMBID = None, track_hasCover = False, track_copyright = [],
                   track_copyrightURL = [], track_trackReplayGain = None,
                   track_releaseReplayGain = None\<rparr>]\<rparr>))"

definition clearArtistLinks :: "Session \<Rightarrow> IdType \<Rightarrow> Session" where
  "clearArtistLinks s i = s\<lparr>db_links := filter (\<lambda>l. link_track l \<noteq> i) (db_links s)\<rparr>"

definition addArtistLink ::
  "Session \<Rightarrow> IdType \<Rightarrow> IdType \<Rightarrow> TrackArtistLinkType \<Rightarrow> string \<Rightarrow> Session" where
  "addArtistLink s t a ty role =
     s\<lparr>db_links := db_links s @
         [\<lparr>link_id = freshId (map link_id (db_links s)), link_track = t, link_artist = a,
           link_type = ty, link_role = role\<rparr>]\<rparr>"

definition findTrackFeatures :: "Session \<Rightarrow> IdType \<Rightarrow> DbTrackFeatures option" where
  "findTrackFeatures s t = find (\<lambda>f. features_track f = t) (db_features s)"

definition removeTrackFeatures :: "Session \<Rightarrow> IdType \<Rightarrow> Session" where
  "removeTrackFeatures s i = s\<lparr>db_features := filter (\<lambda>f. features_id f \<noteq> i) (db_features s)\<rparr>"

section \<open>Identity resolution\<close>

text \<open>\<^verbatim>\<open>createArtist\<close> (lines 40-51).\<close>

definition createArtist :: "Session \<Rightarrow> MetaArtist \<Rightarrow> IdType \<times> Session" where
  "createArtist s artistInfo =
     (let a = newArtist s (name artistInfo);
          a = (case musicBrainzArtistID artistInfo of
                 Some mbid \<Rightarrow> a\<lparr>artist_MBID := Some mbid\<rparr> | None \<Rightarrow> a);
          a = (case sortName artistInfo of
                 Some sn \<Rightarrow> a\<lparr>artist_sortName := Some sn\<rparr> | None \<Rightarrow> a)
      in (artist_id a, s\<lparr>db_artists := db_artists s @ [a]\<rparr>))"

text \<open>\<^verbatim>\<open>updateArtistIfNeeded\<close> (lines 53-67); \<open>artist\<close> is the row the pointer refers to.\<close>

definition updateArtistIfNeeded :: "Session \<Rightarrow> DbArtist \<Rightarrow> MetaArtist \<Rightarrow> Session" where
  "updateArtistIfNeeded s artist artistInfo =
     (let s1 = (if artist_name artist \<noteq> name artistInfo
                then modifyArtist s (artist_id artist) (\<lambda>a. a\<lparr>artist_name := name artistInfo\<rparr>)
                else s)
      in case sortName artistInfo of
           None \<Rightarrow> s1
         | Some sn \<Rightarrow>
             if Some sn \<noteq> artist_sortName artist
             then modifyArtist s1 (artist_id artist) (\<lambda>a. a\<lparr>artist_sortName := Some sn\<rparr>)
             else s1)"

text \<open>
  The inner loop of \<^verbatim>\<open>getOrCreateArtists\<close> (lines 94-102): the first same-named artist
  that is not passed over by the \<^verbatim>\<open>continue\<close>.
\<close>

fun selectSameNamedArtist :: "bool \<Rightarrow> DbArtist list \<Rightarrow> DbArtist option" where
  "selectSameNamedArtist allowFallbackOnMBIDEntries [] = None"
| "selectSameNamedArtist allowFallbackOnMBIDEntries (sameNamedArtist # rest) =
     (if \<not> allowFallbackOnMBIDEntries \<and> artist_MBID sameNamedArtist \<noteq> None
      then selectSameNamedArtist allowFallbackOnMBIDEntries rest
      else Some sameNamedArtist)"

text \<open>
  The body of the outer loop of \<^verbatim>\<open>getOrCreateArtists\<close> (lines 76-112) for one
  \<^verbatim>\<open>artistInfo\<close>: the artist appended to the result, if any, and the session.
\<close>

definition getOrCreateArtist :: "Session \<Rightarrow> MetaArtist \<Rightarrow> bool \<Rightarrow> IdType option \<times> Session" where
  "getOrCreateArtist s artistInfo allowFallbackOnMBIDEntries =
     (case musicBrainzArtistID artistInfo of
        Some mbid \<Rightarrow>
          (case findArtistByMBID s mbid of
             None \<Rightarrow> (case createArtist s artistInfo of (i, s') \<Rightarrow> (Some i, s'))
           | Some artist \<Rightarrow> (Some (artist_id artist), updateArtistIfNeeded s artist artistInfo))
      | None \<Rightarrow>
          if name artistInfo \<noteq> []
          then (case selectSameNamedArtist allowFallbackOnMBIDEntries
                       (findArtistsByName s (name artistInfo)) of
                  None \<Rightarrow> (case createArtist s artistInfo of (i, s') \<Rightarrow> (Some i, s'))
                | Some artist \<Rightarrow> (Some (artist_id artist), updateArtistIfNeeded s artist artistInfo))
          else (None, s))"

text \<open>\<^verbatim>\<open>getOrCreateArtists\<close> (lines 69-116).\<close>

fun getOrCreateArtists :: "Session \<Rightarrow> MetaArtist list \<Rightarrow> bool \<Rightarrow> IdType list \<times> Session" where
  "getOrCreateArtists s [] allowFallbackOnMBIDEntries = ([], s)"
| "getOrCreateArtists s (artistInfo # rest) allowFallbackOnMBIDEntries =
     (case getOrCreateArtist s artistInfo allowFallbackOnMBIDEntries of
        (artist, s1) \<Rightarrow>
          (case getOrCreateArtists s1 rest allowFallbackOnMBIDEntries of
             (resolved, s2) \<Rightarrow>
               ((case artist of None \<Rightarrow> resolved | Some a \<Rightarrow> a # resolved), s2)))"

text \<open>\<^verbatim>\<open>getOrCreateRelease\<close> (lines 118-161).\<close>

fun selectSameNamedRelease :: "DbRelease list \<Rightarrow> DbRelease option" where
  "selectSameNamedRelease [] = None"
| "selectSameNamedRelease (sameNamedRelease # rest) =
     (if release_MBID sameNamedRelease = None then Some sameNamedRelease
      else selectSameNamedRelease rest)"

definition getOrCreateRelease :: "Session \<Rightarrow> MetaAlbum \<Rightarrow> IdType option \<times> Session" where
  "getOrCreateRelease s albumInfo =
     (case musicBrainzAlbumID albumInfo of
        Some mbid \<Rightarrow>
          (case findReleaseByMBID s mbid of
             None \<Rightarrow> (case createRelease s (albumName albumInfo) (Some mbid) of (i, s') \<Rightarrow> (Some i, s'))
           | Some release \<Rightarrow>
               (Some (release_id release),
                if release_name release \<noteq> albumName albumInfo
                then modifyRelease s (release_id release) (\<lambda>r. r\<lparr>release_name := albumName albumInfo\<rparr>)
                else s))
      | None \<Rightarrow>
          if albumName albumInfo \<noteq> []
          then (case selectSameNamedRelease (findReleasesByName s (albumName albumInfo)) of
                  None \<Rightarrow> (case createRelease s (albumName albumInfo) None of (i, s') \<Rightarrow> (Some i, s'))
                | Some release \<Rightarrow> (Some (release_id release), s))
          else (None, s))"

text \<open>\<^verbatim>\<open>getOrCreateClusters\<close> (lines 163-185).\<close>

fun getOrCreateClustersOfType ::
  "Session \<Rightarrow> DbClusterType \<Rightarrow> string list \<Rightarrow> IdType list \<times> Session" where
  "getOrCreateClustersOfType s clusterType [] = ([], s)"
| "getOrCreateClustersOfType s clusterType (clusterName # rest) =
     (case (case getCluster s clusterType clusterName of
              None \<Rightarrow> createCluster s clusterType clusterName
            | Some cluster \<Rightarrow> (cluster_id cluster, s)) of
        (cluster, s1) \<Rightarrow>
          (case getOrCreateClustersOfType s1 clusterType rest of
             (found, s2) \<Rightarrow> (cluster # found, s2)))"

fun getOrCreateClusters :: "Session \<Rightarrow> (string \<times> string list) list \<Rightarrow> IdType list \<times> Session" where
  "getOrCreateClusters s [] = ([], s)"
| "getOrCreateClusters s (clusterNames # rest) =
     (case findClusterType s (fst clusterNames) of
        None \<Rightarrow> getOrCreateClusters s rest
      | Some clusterType \<Rightarrow>
          (case getOrCreateClustersOfType s clusterType (snd clusterNames) of
             (found, s1) \<Rightarrow>
               (case getOrCreateClusters s1 rest of
                  (found', s2) \<Rightarrow> (found @ found', s2))))"

section \<open>The scan step\<close>

datatype ScanErrorType = CannotReadFile | CannotParseFile | NoAudioTrack | BadDuration

record ScanError =
  filePath :: path
  error :: ScanErrorType
  systemError :: string

record ScanStats =
  filesScanned :: size_t
  skips :: size_t
  scans :: size_t
  additions :: size_t
  updates :: size_t
  deletions :: size_t
  errors :: "ScanError list"

text \<open>\<^verbatim>\<open>Progress\<close> of \<^verbatim>\<open>Types.hpp\<close>, the value handed to the progress callback.\<close>

record Progress =
  totalElems :: size_t
  processedElems :: size_t

record ScanContext =
  forceScan :: bool
  stats :: ScanStats
  currentStepStats :: Progress

record Settings =
  scanVersion :: nat
  skipDuplicateRecordingMBID :: bool
  clusterTypeNames :: "string list"
  supportedExtensions :: "string list"

text \<open>
  What the step reads from outside the catalog: \<^verbatim>\<open>PathUtils::getLastWriteTime\<close>
  (\<open>Inl\<close> is the message of the \<^verbatim>\<open>LmsException\<close> it throws), the metadata parser
  (\<open>None\<close> when the file cannot be parsed) and the clock read while a file is written to
  the catalog.
\<close>

record Env =
  getLastWriteTime :: "path \<Rightarrow> string + WDateTime"
  parse :: "path \<Rightarrow> MetaTrack option"
  currentDateTime :: "path \<Rightarrow> WDateTime"

text \<open>
  Modelled from the spec: the path helpers of \<^verbatim>\<open>PathUtils\<close> and
  \<^verbatim>\<open>std::filesystem\<close> are not part of the sources. The base name of a file is what
  follows the last separator; a file is accepted when its extension (from the last dot
  of the base name) is one of the accepted extensions.
\<close>

definition filename :: "path \<Rightarrow> string" where
  "filename p = rev (takeWhile (\<lambda>c. c \<noteq> CHR ''/'') (rev p))"

definition extension :: "path \<Rightarrow> string" where
  "extension p =
     (if CHR ''.'' \<in> set (filename p)
      then CHR ''.'' # rev (takeWhile (\<lambda>c. c \<noteq> CHR ''.'') (rev (filename p)))
      else [])"

definition hasFileAnyExtension :: "path \<Rightarrow> string list \<Rightarrow> bool" where
  "hasFileAnyExtension p exts = (extension p \<in> set exts)"

subsection \<open>Artist links (lines 364-396)\<close>

text \<open>
  One loop of the form
  \<^verbatim>\<open>for (artist : getOrCreateArtists(session, infos, flag)) track.modify()->addArtistLink(...)\<close>:
  the artists are resolved first, then one link is created per resolved artist.
\<close>

definition linkArtists ::
  "Session \<Rightarrow> IdType \<Rightarrow> MetaArtist list \<Rightarrow> bool \<Rightarrow> TrackArtistLinkType \<Rightarrow> string \<Rightarrow> Session" where
  "linkArtists s track artistsInfo allowFallbackOnMBIDEntries ty role =
     (case getOrCreateArtists s artistsInfo allowFallbackOnMBIDEntries of
        (found, s') \<Rightarrow> foldl (\<lambda>s1 a. addArtistLink s1 track a ty role) s' found)"

fun linkPerformers :: "Session \<Rightarrow> IdType \<Rightarrow> (string \<times> MetaArtist list) list \<Rightarrow> Session" where
  "linkPerformers s track [] = s"
| "linkPerformers s track (rolePerformers # rest) =
     linkPerformers
       (linkArtists s track (snd rolePerformers) True Performer (fst rolePerformers)) track rest"

definition addArtistLinks :: "Session \<Rightarrow> IdType \<Rightarrow> MetaTrack \<Rightarrow> Session" where
  "addArtistLinks s track trackInfo =
     (let s1 = linkArtists s track (artists trackInfo) False Artist [];
          s2 = linkArtists s1 track (albumArtists trackInfo) False ReleaseArtist [];
          s3 = linkArtists s2 track (conductorArtists trackInfo) True Conductor [];
          s4 = linkArtists s3 track (composerArtists trackInfo) True Composer [];
          s5 = linkArtists s4 track (lyricistArtists trackInfo) True Lyricist [];
          s6 = linkArtists s5 track (mixerArtists trackInfo) True Mixer [];
          s7 = linkPerformers s6 track (performerArtists trackInfo);
          s8 = linkArtists s7 track (producerArtists trackInfo) True Producer []
      in linkArtists s8 track (remixerArtists trackInfo) True Remixer [])"

subsection \<open>\<^verbatim>\<open>ScanStepScanFiles::scanAudioFile\<close> (lines 240-429)\<close>

text \<open>The test of lines 262-265 on the track stored for the file.\<close>

definition upToDate :: "Settings \<Rightarrow> Session \<Rightarrow> path \<Rightarrow> WDateTime \<Rightarrow> bool" where
  "upToDate st s f lastWriteTime =
     (case findByPath s f of
        None \<Rightarrow> False
      | Some track \<Rightarrow>
          toTime_t (track_lastWriteTime track) = toTime_t lastWriteTime
          \<and> track_scanVersion track = scanVersion st)"

text \<open>
  The loop of lines 289-302: the first track with the recording MBID that is not the
  track of the file itself; on such a track the function returns.
\<close>

fun findOtherTrack :: "DbTrack option \<Rightarrow> DbTrack list \<Rightarrow> DbTrack option" where
  "findOtherTrack track [] = None"
| "findOtherTrack track (otherTrack # rest) =
     (if (case track of None \<Rightarrow> False | Some t \<Rightarrow> track_id t = track_id otherTrack)
      then findOtherTrack track rest
      else Some otherTrack)"

definition duplicateRecording :: "Settings \<Rightarrow> Session \<Rightarrow> path \<Rightarrow> MetaTrack \<Rightarrow> bool" where
  "duplicateRecording st s f trackInfo =
     (case recordingMBID trackInfo of
        None \<Rightarrow> False
      | Some mbid \<Rightarrow>
          skipDuplicateRecordingMBID st
          \<and> findOtherTrack (findByPath s f) (findByRecordingMBID s mbid) \<noteq> None)"

text \<open>\<^verbatim>\<open>if (track) { track.remove(); stats.deletions++; }\<close>\<close>

definition removeIfExists :: "DbTrack option \<Rightarrow> Session \<times> ScanContext \<Rightarrow> Session \<times> ScanContext" where
  "removeIfExists track sc =
     (case track of
        None \<Rightarrow> sc
      | Some t \<Rightarrow>
          (removeTrack (fst sc) (track_id t),
           (snd sc)\<lparr>stats := (stats (snd sc))\<lparr>deletions := deletions (stats (snd sc)) + 1\<rparr>\<rparr>))"

definition addError :: "ScanContext \<Rightarrow> ScanError \<Rightarrow> ScanContext" where
  "addError ctx e = ctx\<lparr>stats := (stats ctx)\<lparr>errors := errors (stats ctx) @ [e]\<rparr>\<rparr>"

text \<open>Lines 335-428: the track is created or reused, then every field is written.\<close>

definition updateTrack ::
  "Settings \<Rightarrow> Env \<Rightarrow> path \<Rightarrow> WDateTime \<Rightarrow> MetaTrack \<Rightarrow> DbTrack option
     \<Rightarrow> Session \<times> ScanContext \<Rightarrow> Session \<times> ScanContext" where
  "updateTrack st env f lastWriteTime trackInfo track sc =
     (let trackTitle = (if title trackInfo \<noteq> [] then title trackInfo else filename f);
          created = (case track of
                       None \<Rightarrow>
                         (case createTrack (fst sc) f of
                            (i, s') \<Rightarrow>
                              (i, s', (snd sc)\<lparr>stats := (stats (snd sc))
                                        \<lparr>additions := additions (stats (snd sc)) + 1\<rparr>\<rparr>))
                     | Some t \<Rightarrow>
                         (track_id t, fst sc,
                          (snd sc)\<lparr>stats := (stats (snd sc))
                             \<lparr>updates := updates (stats (snd sc)) + 1\<rparr>\<rparr>));
          tid = fst created;
          s1 = clearArtistLinks (fst (snd created)) tid;
          s2 = addArtistLinks s1 tid trackInfo;
          s3 = modifyTrack s2 tid (\<lambda>t. t\<lparr>track_scanVersion := scanVersion st\<rparr>);
          rel = (case album trackInfo of
                   Some a \<Rightarrow> getOrCreateRelease s3 a
                 | None \<Rightarrow> (None, s3));
          s4 = modifyTrack (snd rel) tid (\<lambda>t. t\<lparr>track_release := fst rel\<rparr>);
          cl = getOrCreateClusters s4 (clusters trackInfo);
          s5 = modifyTrack (snd cl) tid
                 (\<lambda>t. t\<lparr>track_clusters := set (fst cl),
                        track_lastWriteTime := lastWriteTime,
                        track_name := trackTitle,
                        track_duration := duration trackInfo,
                        track_addedTime := currentDateTime env f,
                        track_trackNumber := (case trackNumber trackInfo of Some n \<Rightarrow> n | None \<Rightarrow> 0),
                        track_discNumber := (case discNumber trackInfo of Some n \<Rightarrow> n | None \<Rightarrow> 0),
                        track_totalTrack := totalTrack trackInfo,
                        track_totalDisc := totalDisc trackInfo,
                        track_discSubtitle := discSubtitle trackInfo,
                        track_date := date trackInfo,
                        track_originalDate := originalDate trackInfo\<rparr>);
          s6 = (if \<not> isValid (date trackInfo) \<and> isValid (originalDate trackInfo)
                then modifyTrack s5 tid (\<lambda>t. t\<lparr>track_date := originalDate trackInfo\<rparr>)
                else s5);
          s7 = modifyTrack s6 tid
                 (\<lambda>t. t\<lparr>track_recordingMBID := recordingMBID trackInfo,
                        track_trackMBID := trackMBID trackInfo\<rparr>);
          s8 = (case findTrackFeatures s7 tid of
                  Some trackFeatures \<Rightarrow> removeTrackFeatures s7 (features_id trackFeatures)
                | None \<Rightarrow> s7);
          s9 = modifyTrack s8 tid
                 (\<lambda>t. t\<lparr>track_hasCover := hasCover trackInfo,
                        track_copyright := copyright trackInfo,
                        track_copyrightURL := copyrightURL trackInfo,
                        track_trackReplayGain := trackReplayGain trackInfo,
                        track_releaseReplayGain := albumReplayGain trackInfo\<rparr>)
      in (s9, snd (snd created)))"

definition scanAudioFile ::
  "Settings \<Rightarrow> Env \<Rightarrow> path \<Rightarrow> Session \<times> ScanContext \<Rightarrow> Session \<times> ScanContext" where
  "scanAudioFile st env f sc =
     (case getLastWriteTime env f of
        Inl e \<Rightarrow>
          (fst sc, (snd sc)\<lparr>stats := (stats (snd sc))\<lparr>skips := skips (stats (snd sc)) + 1\<rparr>\<rparr>)
      | Inr lastWriteTime \<Rightarrow>
          if \<not> forceScan (snd sc) \<and> upToDate st (fst sc) f lastWriteTime
          then (fst sc, (snd sc)\<lparr>stats := (stats (snd sc))\<lparr>skips := skips (stats (snd sc)) + 1\<rparr>\<rparr>)
          else
            (case parse env f of
               None \<Rightarrow>
                 (fst sc, addError (snd sc) \<lparr>filePath = f, error = CannotParseFile, systemError = []\<rparr>)
             | Some trackInfo \<Rightarrow>
                 (let ctx = (snd sc)\<lparr>stats := (stats (snd sc))\<lparr>scans := scans (stats (snd sc)) + 1\<rparr>\<rparr>;
                      track = findByPath (fst sc) f
                  in if duplicateRecording st (fst sc) f trackInfo
                     then removeIfExists track (fst sc, ctx)
                     else if audioStreams trackInfo = []
                     then (case removeIfExists track (fst sc, ctx) of
                             (s', ctx') \<Rightarrow>
                               (s', addError ctx'
                                      \<lparr>filePath = f, error = NoAudioTrack, systemError = []\<rparr>))
                     else if duration trackInfo = 0
                     then (case removeIfExists track (fst sc, ctx) of
                             (s', ctx') \<Rightarrow>
                               (s', addError ctx'
                                      \<lparr>filePath = f, error = BadDuration, systemError = []\<rparr>))
                     else updateTrack st env f lastWriteTime trackInfo track (fst sc, ctx))))"

subsection \<open>\<^verbatim>\<open>ScanStepScanFiles::process\<close> (lines 211-238)\<close>

text \<open>
  Modelled from the spec: \<^verbatim>\<open>PathUtils::exploreFilesRecursive\<close> is not part of the
  sources. The walker produces a sequence of events, an error code or none and a path,
  hands each to the callback and stops when the callback returns false. An event also
  carries the value the abort flag \<^verbatim>\<open>_abortScan\<close> has when the callback reads it.
\<close>

record WalkEntry =
  abortScan :: bool
  ec :: "string option"
  entryPath :: path

fun exploreFilesRecursive :: "(WalkEntry \<Rightarrow> 'st \<Rightarrow> bool \<times> 'st) \<Rightarrow> WalkEntry list \<Rightarrow> 'st \<Rightarrow> 'st" where
  "exploreFilesRecursive cb [] st = st"
| "exploreFilesRecursive cb (e # es) st =
     (case cb e st of
        (continue, st') \<Rightarrow> if continue then exploreFilesRecursive cb es st' else st')"

text \<open>
  The state of a run: the catalog, the scan context and the values the progress callback
  has been called with, oldest first.
\<close>

record Run =
  session :: Session
  scanContext :: ScanContext
  progressCalls :: "Progress list"

text \<open>
  The callback of lines 218-237. The call \<^verbatim>\<open>setClusterTypeNames\<close> of line 214 configures
  the metadata parser, which is the function \<open>parse\<close> of the environment here.
\<close>

definition processEntry :: "Settings \<Rightarrow> Env \<Rightarrow> WalkEntry \<Rightarrow> Run \<Rightarrow> bool \<times> Run" where
  "processEntry st env e r =
     (if abortScan e then (False, r)
      else case ec e of
        Some message \<Rightarrow>
          (True, r\<lparr>scanContext := addError (scanContext r)
                     \<lparr>filePath = entryPath e, error = CannotReadFile, systemError = message\<rparr>\<rparr>)
      | None \<Rightarrow>
          if hasFileAnyExtension (entryPath e) (supportedExtensions st)
          then (case scanAudioFile st env (entryPath e) (session r, scanContext r) of
                  (s', c') \<Rightarrow>
                    (let c'' = c'\<lparr>currentStepStats := (currentStepStats c')
                                   \<lparr>processedElems := processedElems (currentStepStats c') + 1\<rparr>\<rparr>
                     in (True, \<lparr>session = s', scanContext = c'',
                                progressCalls = progressCalls r @ [currentStepStats c'']\<rparr>)))
          else (True, r))"

definition process :: "Settings \<Rightarrow> Env \<Rightarrow> WalkEntry list \<Rightarrow> Run \<Rightarrow> Run" where
  "process st env entries r =
     exploreFilesRecursive (processEntry st env) entries
       (r\<lparr>scanContext := (scanContext r)\<lparr>currentStepStats := (currentStepStats (scanContext r))
            \<lparr>totalElems := filesScanned (stats (scanContext r))\<rparr>\<rparr>\<rparr>)"

subsection \<open>Construction (lines 187-209)\<close>

datatype ParserReadStyle = Fast | Average | Accurate

datatype LmsException = LmsException string

text \<open>
  Modelled from the spec: \<^verbatim>\<open>IConfig::getString\<close> is not part of the sources; it gives
  the value of the option, or the default when the option is unset.
\<close>

definition getString :: "(string \<rightharpoonup> string) \<Rightarrow> string \<Rightarrow> string \<Rightarrow> string" where
  "getString config key def = (case config key of None \<Rightarrow> def | Some v \<Rightarrow> v)"

text \<open>The message \<^verbatim>\<open>Invalid value for 'scanner-parser-read-style'\<close>.\<close>

definition invalidReadStyle :: string where
  "invalidReadStyle = ''Invalid value for 'scanner-parser-read-style'' @ [CHR 0x27]"

definition getParserReadStyle :: "(string \<rightharpoonup> string) \<Rightarrow> LmsException + ParserReadStyle" where
  "getParserReadStyle config =
     (let readStyle = getString config ''scanner-parser-read-style'' ''accurate''
      in if readStyle = ''fast'' then Inr Fast
         else if readStyle = ''average'' then Inr Average
         else if readStyle = ''accurate'' then Inr Accurate
         else Inl (LmsException invalidReadStyle))"

text \<open>
  The scan step object: its settings and the read style its metadata parser was created
  with. The constructor evaluates \<^verbatim>\<open>getParserReadStyle()\<close> in its initialiser list, so
  an exception there leaves no object.
\<close>

record ScanStepScanFiles =
  settings :: Settings
  metadataParser :: ParserReadStyle

definition newScanStepScanFiles ::
  "(string \<rightharpoonup> string) \<Rightarrow> Settings \<Rightarrow> LmsException + ScanStepScanFiles" where
  "newScanStepScanFiles config initParams =
     (case getParserReadStyle config of
        Inl e \<Rightarrow> Inl e
      | Inr style \<Rightarrow> Inr \<lparr>settings = initParams, metadataParser = style\<rparr>)"

text \<open>
  A scan with a freshly constructed step: \<^verbatim>\<open>process\<close> is a member function, so it runs
  only on an object the constructor has returned.
\<close>

definition constructAndProcess ::
  "(string \<rightharpoonup> string) \<Rightarrow> Settings \<Rightarrow> Env \<Rightarrow> WalkEntry list \<Rightarrow> Run \<Rightarrow> LmsException + Run" where
  "constructAndProcess config initParams env entries r =
     (case newScanStepScanFiles config initParams of
        Inl e \<Rightarrow> Inl e
      | Inr step \<Rightarrow> Inr (process (settings step) env entries r))"

text \<open>
  The entries for which the callback of \<^verbatim>\<open>process\<close> scans a file: those the walker
  hands over before the abort flag is seen set, that carry no error code and have an
  accepted extension.
\<close>

definition walked :: "Settings \<Rightarrow> WalkEntry list \<Rightarrow> WalkEntry list" where
  "walked st entries =
     filter (\<lambda>e. ec e = None \<and> hasFileAnyExtension (entryPath e) (supportedExtensions st))
       (takeWhile (\<lambda>e. \<not> abortScan e) entries)"

section \<open>The artist links, role by role\<close>

text \<open>
  Following the spec's words: artist resolution is applied independently per role list
  (main artists, release artists, conductors, composers, lyricists, mixers,
  performers by role, producers, remixers), in the role order of the data model.
  \<open>roleLists\<close> gives, for a role, the lists of raw artist records resolved for it, each
  with the performer role string of its links (empty but for performers).
\<close>

definition roleLists :: "MetaTrack \<Rightarrow> TrackArtistLinkType \<Rightarrow> (string \<times> MetaArtist list) list" where
  "roleLists trackInfo ty =
     (case ty of
        Artist \<Rightarrow> [([], artists trackInfo)]
      | ReleaseArtist \<Rightarrow> [([], albumArtists trackInfo)]
      | Conductor \<Rightarrow> [([], conductorArtists trackInfo)]
      | Composer \<Rightarrow> [([], composerArtists trackInfo)]
      | Lyricist \<Rightarrow> [([], lyricistArtists trackInfo)]
      | Mixer \<Rightarrow> [([], mixerArtists trackInfo)]
      | Performer \<Rightarrow> performerArtists trackInfo
      | Producer \<Rightarrow> [([], producerArtists trackInfo)]
      | Remixer \<Rightarrow> [([], remixerArtists trackInfo)])"

section \<open>A small catalog and run, for concrete evaluation\<close>

definition exSettings :: Settings where
  "exSettings = \<lparr>scanVersion = 1, skipDuplicateRecordingMBID = True,
                  clusterTypeNames = [''GENRE''], supportedExtensions = [''.mp3'']\<rparr>"

definition exTrack :: DbTrack where
  "exTrack = \<lparr>track_id = 1, track_path = ''/music/a.mp3'', track_scanVersion = 1,
               track_release = None, track_clusters = {}, track_lastWriteTime = 5000,
               track_name = ''Song'', track_duration = 180000, track_addedTime = 100,
               track_trackNumber = 3, track_discNumber = 1, track_totalTrack = None,
               track_totalDisc = None, track_discSubtitle = [], track_date = InvalidDate,
               track_originalDate = InvalidDate, track_recordingMBID = Some ''R1'',
               track_trackMBID = None, track_hasCover = False, track_copyright = [],
               track_copyrightURL = [], track_trackReplayGain = None,
               track_releaseReplayGain = None\<rparr>"

definition exArtist :: DbArtist where
  "exArtist = \<lparr>artist_id = 1, artist_name = ''Queen'', artist_sortName = None,
                artist_MBID = Some ''M1''\<rparr>"

definition exSession :: Session where
  "exSession = \<lparr>db_tracks = [exTrack], db_artists = [exArtist], db_releases = [],
                 db_clusterTypes = [], db_clusters = [], db_links = [], db_features = []\<rparr>"

definition exStats :: ScanStats where
  "exStats = \<lparr>filesScanned = 2, skips = 0, scans = 0, additions = 0, updates = 0,
               deletions = 0, errors = []\<rparr>"

definition exContext :: ScanContext where
  "exContext = \<lparr>forceScan = False, stats = exStats,
                 currentStepStats = \<lparr>totalElems = 0, processedElems = 0\<rparr>\<rparr>"

definition exArtistInfo :: MetaArtist where
  "exArtistInfo = \<lparr>name = ''Queen'', sortName = None, musicBrainzArtistID = None\<rparr>"

definition exTrackInfo :: MetaTrack where
  "exTrackInfo = \<lparr>recordingMBID = None, trackMBID = None, audioStreams = [0],
                   duration = 180000, title = ''Song'', artists = [], albumArtists = [],
                   conductorArtists = [], composerArtists = [], lyricistArtists = [],
                   mixerArtists = [], performerArtists = [], producerArtists = [],
                   remixerArtists = [], album = None, clusters = [], trackNumber = Some 3,
                   discNumber = Some 1, totalTrack = None, totalDisc = None,
                   discSubtitle = [], date = InvalidDate, originalDate = Date 1999 1 1,
                   hasCover = False, copyright = [], copyrightURL = [],
                   trackReplayGain = None, albumReplayGain = None\<rparr>"

definition exTrackB :: DbTrack where
  "exTrackB = exTrack\<lparr>track_id := 2, track_path := ''/music/b.mp3'',
                       track_lastWriteTime := 1000, track_recordingMBID := None\<rparr>"

definition exSession2 :: Session where
  "exSession2 = exSession\<lparr>db_tracks := [exTrack, exTrackB]\<rparr>"

definition exEnv :: Env where
  "exEnv = \<lparr>getLastWriteTime = (\<lambda>p. if p = ''/music/locked.mp3''
                                     then Inl ''Failed to get last write time'' else Inr 5000),
             parse = (\<lambda>p. if p = ''/music/a.mp3''
                          then Some (exTrackInfo\<lparr>recordingMBID := Some ''R1'', duration := 0\<rparr>)
                          else if p = ''/music/b.mp3''
                          then Some (exTrackInfo\<lparr>recordingMBID := Some ''R1'', audioStreams := []\<rparr>)
                          else if p = ''/music/c.mp3''
                          then Some (exTrackInfo\<lparr>audioStreams := []\<rparr>)
                          else if p = ''/music/d.mp3''
                          then Some exTrackInfo
                          else if p = ''/music/e.mp3''
                          then Some (exTrackInfo\<lparr>album := Some \<lparr>albumName = [], musicBrainzAlbumID = None\<rparr>,
                                                  date := Date 2001 5 4\<rparr>)
                          else None),
             currentDateTime = (\<lambda>p. 9000)\<rparr>"

definition exEnvF :: Env where
  "exEnvF = exEnv\<lparr>parse := (parse exEnv)(''/music/f.mp3'' \<mapsto>
               exTrackInfo\<lparr>albumArtists := [exArtistInfo],
                            performerArtists := [(''vocals'', [exArtistInfo])]\<rparr>)\<rparr>"

definition exRun :: Run where
  "exRun = \<lparr>session = exSession, scanContext = exContext, progressCalls = []\<rparr>"

definition exEntry :: WalkEntry where
  "exEntry = \<lparr>abortScan = False, ec = None, entryPath = ''/music/a.mp3''\<rparr>"

definition exEntries :: "WalkEntry list" where
  "exEntries =
     [exEntry,
      \<lparr>abortScan = False, ec = None, entryPath = ''/music/notes.txt''\<rparr>,
      \<lparr>abortScan = False, ec = Some ''Permission denied'', entryPath = ''/music/private''\<rparr>,
      \<lparr>abortScan = False, ec = None, entryPath = ''/music/c.mp3''\<rparr>,
      \<lparr>abortScan = True, ec = None, entryPath = ''/music/d.mp3''\<rparr>,
      \<lparr>abortScan = False, ec = None, entryPath = ''/music/e.mp3''\<rparr>]"

section \<open>Facts about the catalog store\<close>

lemma find_in_set: "find P xs = Some a \<Longrightarrow> a \<in> set xs \<and> P a"
  by (induction xs) (auto split: if_splits)

lemma freshId_above: "i \<in> set ids \<Longrightarrow> i < freshId ids"
  by (induction ids) (auto simp: freshId_def)

lemma freshId_notin: "freshId ids \<notin> set ids"
  using freshId_above by blast

lemma createArtist_effect:
  "createArtist s artistInfo
   = (freshId (map artist_id (db_artists s)),
      s\<lparr>db_artists := db_artists s @
          [\<lparr>artist_id = freshId (map artist_id (db_artists s)), artist_name = name artistInfo,
            artist_sortName = sortName artistInfo,
            artist_MBID = musicBrainzArtistID artistInfo\<rparr>]\<rparr>)"
  by (simp add: createArtist_def newArtist_def Let_def split: option.splits)

lemma updateArtistIfNeeded_only_artists:
  "updateArtistIfNeeded s artist artistInfo
   = s\<lparr>db_artists := db_artists (updateArtistIfNeeded s artist artistInfo)\<rparr>"
  by (simp add: updateArtistIfNeeded_def modifyArtist_def Let_def split: option.splits)

lemma updateArtistIfNeeded_artists:
  assumes "distinct (map artist_id (db_artists s))" and "artist \<in> set (db_artists s)"
  shows "db_artists (updateArtistIfNeeded s artist artistInfo)
         = map (\<lambda>a. if artist_id a = artist_id artist
                  then a\<lparr>artist_name := name artistInfo,
                         artist_sortName := (case sortName artistInfo of
                                               Some sn \<Rightarrow> Some sn | None \<Rightarrow> artist_sortName a)\<rparr>
                  else a) (db_artists s)"
proof -
  have key: "artist_id a = artist_id artist \<Longrightarrow> a = artist" if "a \<in> set (db_artists s)" for a
    using assms that by (meson distinct_map inj_onD)
  have "db_artists (updateArtistIfNeeded s artist artistInfo)
        = map (\<lambda>a. if artist_id a = artist_id artist
                 then a\<lparr>artist_name := (if artist_name artist \<noteq> name artistInfo
                                          then name artistInfo else artist_name a),
                        artist_sortName := (case sortName artistInfo of
                                              None \<Rightarrow> artist_sortName a
                                            | Some sn \<Rightarrow> if Some sn \<noteq> artist_sortName artist
                                                         then Some sn else artist_sortName a)\<rparr>
                 else a) (db_artists s)"
    by (auto simp: updateArtistIfNeeded_def modifyArtist_def Let_def o_def split: option.splits
             intro!: map_idI [symmetric])
  also have "\<dots> = map (\<lambda>a. if artist_id a = artist_id artist
                  then a\<lparr>artist_name := name artistInfo,
                         artist_sortName := (case sortName artistInfo of
                                               Some sn \<Rightarrow> Some sn | None \<Rightarrow> artist_sortName a)\<rparr>
                  else a) (db_artists s)"
    by (rule map_cong [OF refl]) (auto dest: key split: option.splits)
  finally show ?thesis .
qed

lemma updateArtistIfNeeded_effect:
  assumes "distinct (map artist_id (db_artists s))" and "artist \<in> set (db_artists s)"
  shows "updateArtistIfNeeded s artist artistInfo
         = s\<lparr>db_artists := map (\<lambda>a. if artist_id a = artist_id artist
                  then a\<lparr>artist_name := name artistInfo,
                         artist_sortName := (case sortName artistInfo of
                                               Some sn \<Rightarrow> Some sn | None \<Rightarrow> artist_sortName a)\<rparr>
                  else a) (db_artists s)\<rparr>"
  using updateArtistIfNeeded_only_artists [of s artist artistInfo]
        updateArtistIfNeeded_artists [OF assms, of artistInfo]
  by simp

text \<open>Artist resolution keeps the identifiers of the artists distinct.\<close>

lemma ids_updateArtistIfNeeded:
  "map artist_id (db_artists (updateArtistIfNeeded s a i)) = map artist_id (db_artists s)"
  by (simp add: updateArtistIfNeeded_def modifyArtist_def Let_def o_def if_distrib [of artist_id]
           split: option.splits)

lemma getOrCreateArtist_distinct:
  assumes "distinct (map artist_id (db_artists s))"
  shows "distinct (map artist_id (db_artists (snd (getOrCreateArtist s artistInfo allow))))"
  using assms freshId_notin [of "map artist_id (db_artists s)"]
  by (simp add: getOrCreateArtist_def createArtist_effect ids_updateArtistIfNeeded
           split: option.splits)

lemma getOrCreateArtists_distinct:
  assumes "distinct (map artist_id (db_artists s))"
  shows "distinct (map artist_id (db_artists (snd (getOrCreateArtists s infos allow))))"
  using assms
proof (induction infos arbitrary: s)
  case Nil
  then show ?case by simp
next
  case (Cons i infos)
  obtain r s1 where a: "getOrCreateArtist s i allow = (r, s1)" by (cases "getOrCreateArtist s i allow")
  obtain rs s2 where b: "getOrCreateArtists s1 infos allow = (rs, s2)"
    by (cases "getOrCreateArtists s1 infos allow")
  have "distinct (map artist_id (db_artists s1))"
    using getOrCreateArtist_distinct [OF Cons.prems, of i allow] a by simp
  then have "distinct (map artist_id (db_artists s2))" using Cons.IH [of s1] b by simp
  then show ?case using a b by simp
qed

text \<open>The loop of \<^verbatim>\<open>getOrCreateArtists\<close> over a list in two parts.\<close>

lemma getOrCreateArtists_append:
  "getOrCreateArtists s (xs @ ys) allow
   = (case getOrCreateArtists s xs allow of
        (r1, s1) \<Rightarrow> (case getOrCreateArtists s1 ys allow of (r2, s2) \<Rightarrow> (r1 @ r2, s2)))"
  by (induction xs arbitrary: s) (simp_all split: prod.splits option.splits)

lemma getOrCreateArtists_skips_empty:
  assumes "musicBrainzArtistID artistInfo = None" and "name artistInfo = []"
  shows "getOrCreateArtists s (earlier @ artistInfo # later) allow
         = (case getOrCreateArtists s earlier allow of
              (found, s1) \<Rightarrow>
                (case getOrCreateArtists s1 later allow of (rest, s2) \<Rightarrow> (found @ rest, s2)))"
  using assms
  by (simp add: getOrCreateArtists_append getOrCreateArtist_def split: prod.splits)

lemma selectSameNamedArtist_find:
  "selectSameNamedArtist allow xs = find (\<lambda>a. allow \<or> artist_MBID a = None) xs"
  by (induction xs) auto

lemma find_first: "find (\<lambda>a. True) xs = (case xs of [] \<Rightarrow> None | a # _ \<Rightarrow> Some a)"
  by (cases xs) simp_all

lemma linkPerformers_foldl:
  "linkPerformers s track ps
   = foldl (\<lambda>s2 roleInfos. linkArtists s2 track (snd roleInfos) True Performer (fst roleInfos)) s ps"
  by (induction ps arbitrary: s) simp_all

lemma addArtistLinks_roles:
  "addArtistLinks s track trackInfo
   = foldl (\<lambda>s1 ty.
        foldl (\<lambda>s2 roleInfos.
                 case getOrCreateArtists s2 (snd roleInfos)
                        (ty \<noteq> Artist \<and> ty \<noteq> ReleaseArtist) of
                   (found, s3) \<Rightarrow>
                     foldl (\<lambda>s4 a. addArtistLink s4 track a ty (fst roleInfos)) s3 found)
          s1 (roleLists trackInfo ty))
       s [Artist, ReleaseArtist, Conductor, Composer, Lyricist, Mixer, Performer, Producer, Remixer]"
  by (simp add: addArtistLinks_def linkArtists_def roleLists_def linkPerformers_foldl Let_def)

lemma findOtherTrack_None:
  "(findOtherTrack track xs = None)
   = (list_all (\<lambda>x. case track of None \<Rightarrow> False | Some t \<Rightarrow> track_id t = track_id x) xs)"
  by (induction xs) auto

lemma duplicateRecording_intro:
  assumes "recordingMBID trackInfo = Some mbid"
    and "skipDuplicateRecordingMBID st"
    and "other \<in> set (db_tracks s)"
    and "track_recordingMBID other = Some mbid"
    and "case findByPath s f of None \<Rightarrow> True | Some t \<Rightarrow> track_id other \<noteq> track_id t"
  shows "duplicateRecording st s f trackInfo"
proof -
  have "other \<in> set (findByRecordingMBID s mbid)"
    using assms(3,4) by (simp add: findByRecordingMBID_def)
  moreover have "\<not> (case findByPath s f of None \<Rightarrow> False | Some t \<Rightarrow> track_id t = track_id other)"
    using assms(5) by (auto split: option.splits)
  ultimately have "findOtherTrack (findByPath s f) (findByRecordingMBID s mbid) \<noteq> None"
    by (auto simp: findOtherTrack_None list_all_iff)
  then show ?thesis using assms(1,2) by (simp add: duplicateRecording_def)
qed

section \<open>Change detection\<close>

text \<open>
  C1. A file that already has a track, scanned without the force flag, whose last-write
  time equals the stored one and whose stored scan version is the current one: the
  catalog is returned as it was, and the scan context differs only by the skip counter,
  which is one higher (no other counter moves and no error is added).
\<close>

theorem scanAudioFile_unchanged_skips:
  assumes "findByPath s f = Some track"
    and "\<not> forceScan ctx"
    and "getLastWriteTime env f = Inr lastWriteTime"
    and "track_lastWriteTime track = lastWriteTime"
    and "track_scanVersion track = scanVersion st"
  shows "scanAudioFile st env f (s, ctx)
         = (s, ctx\<lparr>stats := (stats ctx)\<lparr>skips := skips (stats ctx) + 1\<rparr>\<rparr>)"
  using assms by (simp add: scanAudioFile_def upToDate_def)

theorem scanAudioFile_unchanged_skips_witness:
  "scanAudioFile exSettings exEnv ''/music/a.mp3'' (exSession, exContext)
   = (exSession, exContext\<lparr>stats := exStats\<lparr>skips := 1\<rparr>\<rparr>)"
  using scanAudioFile_unchanged_skips
          [of exSession "''/music/a.mp3''" exTrack exContext exEnv 5000 exSettings]
  by (simp add: findByPath_def exSession_def exTrack_def exContext_def exEnv_def
                exSettings_def exStats_def)

text \<open>
  C6. A file whose last-write time cannot be read: the skip counter goes up by one and
  the catalog is untouched, but the error list of the run stays as it was. Here the
  lookup fails for \<^verbatim>\<open>/music/locked.mp3\<close> and the error list stays empty.
\<close>

theorem scanAudioFile_unreadable_records_no_error:
  "scanAudioFile exSettings exEnv ''/music/locked.mp3'' (exSession, exContext)
   = (exSession, exContext\<lparr>stats := exStats\<lparr>skips := 1\<rparr>\<rparr>)
   \<and> errors (stats (snd (scanAudioFile exSettings exEnv ''/music/locked.mp3''
                            (exSession, exContext)))) = []"
  by (simp add: scanAudioFile_def exEnv_def exContext_def exStats_def)

section \<open>Duplicate suppression and the validity gate\<close>

text \<open>
  C3. A parsed record carries a recording MBID, the policy that skips duplicate recording
  MBIDs is on, and the catalog holds a track with that recording MBID that is not the
  track of the file: the file is abandoned. The track of the file, if there is one, is
  removed together with its links and the deletion counter goes up by one; nothing else in
  the catalog changes. The scan counter is the only other counter that moves, and no
  error is recorded whatever the audio streams and the duration of the record are, so
  the validity checks have not run.
\<close>

theorem scanAudioFile_duplicate_recording:
  assumes "getLastWriteTime env f = Inr lastWriteTime"
    and "forceScan ctx \<or> \<not> upToDate st s f lastWriteTime"
    and "parse env f = Some trackInfo"
    and "recordingMBID trackInfo = Some mbid"
    and "skipDuplicateRecordingMBID st"
    and "other \<in> set (db_tracks s)"
    and "track_recordingMBID other = Some mbid"
    and "case findByPath s f of None \<Rightarrow> True | Some t \<Rightarrow> track_id other \<noteq> track_id t"
  shows "scanAudioFile st env f (s, ctx)
         = (case findByPath s f of
              None \<Rightarrow> (s, ctx\<lparr>stats := (stats ctx)\<lparr>scans := scans (stats ctx) + 1\<rparr>\<rparr>)
            | Some t \<Rightarrow>
                (s\<lparr>db_tracks := filter (\<lambda>x. track_id x \<noteq> track_id t) (db_tracks s),
                   db_links := filter (\<lambda>l. link_track l \<noteq> track_id t) (db_links s)\<rparr>,
                 ctx\<lparr>stats := (stats ctx)\<lparr>scans := scans (stats ctx) + 1,
                                        deletions := deletions (stats ctx) + 1\<rparr>\<rparr>))"
proof -
  have dup: "duplicateRecording st s f trackInfo"
    using assms(4-8) by (rule duplicateRecording_intro)
  show ?thesis
    using assms(1-3) dup
    by (auto simp: scanAudioFile_def Let_def removeIfExists_def removeTrack_def
             split: option.splits)
qed

theorem scanAudioFile_duplicate_recording_witness:
  "scanAudioFile exSettings exEnv ''/music/b.mp3'' (exSession, exContext)
   = (exSession, exContext\<lparr>stats := exStats\<lparr>scans := 1\<rparr>\<rparr>)
   \<and> scanAudioFile exSettings exEnv ''/music/b.mp3'' (exSession2, exContext)
   = (exSession, exContext\<lparr>stats := exStats\<lparr>scans := 1, deletions := 1\<rparr>\<rparr>)"
proof -
  have up: "\<not> upToDate exSettings exSession ''/music/b.mp3'' 5000"
           "\<not> upToDate exSettings exSession2 ''/music/b.mp3'' 5000"
    by (simp_all add: upToDate_def findByPath_def exSession_def exSession2_def exTrack_def
                      exTrackB_def toTime_t_def)
  have a: "scanAudioFile exSettings exEnv ''/music/b.mp3'' (exSession, exContext)
           = (exSession, exContext\<lparr>stats := exStats\<lparr>scans := 1\<rparr>\<rparr>)"
    using scanAudioFile_duplicate_recording
            [of exEnv "''/music/b.mp3''" 5000 exContext exSettings exSession
                "exTrackInfo\<lparr>recordingMBID := Some ''R1'', audioStreams := []\<rparr>" "''R1''" exTrack]
          up(1)
    by (simp add: exEnv_def exSettings_def exSession_def exTrack_def findByPath_def
                  exContext_def exStats_def)
  have b: "scanAudioFile exSettings exEnv ''/music/b.mp3'' (exSession2, exContext)
           = (exSession, exContext\<lparr>stats := exStats\<lparr>scans := 1, deletions := 1\<rparr>\<rparr>)"
    using scanAudioFile_duplicate_recording
            [of exEnv "''/music/b.mp3''" 5000 exContext exSettings exSession2
                "exTrackInfo\<lparr>recordingMBID := Some ''R1'', audioStreams := []\<rparr>" "''R1''" exTrack]
          up(2)
    by (simp add: exEnv_def exSettings_def exSession_def exSession2_def exTrack_def
                  exTrackB_def findByPath_def exContext_def exStats_def)
  show ?thesis using a b by simp
qed

text \<open>
  C5. A parsed record that is not a duplicate recording and has no audio stream or a zero
  duration: the track of the file, if there is one, is removed together with its links and
  the deletion counter goes up by one; one error is recorded for the file, NoAudioTrack
  when there is no audio stream and BadDuration otherwise; nothing is created and no field
  is written.
\<close>

theorem scanAudioFile_invalid_audio:
  assumes "getLastWriteTime env f = Inr lastWriteTime"
    and "forceScan ctx \<or> \<not> upToDate st s f lastWriteTime"
    and "parse env f = Some trackInfo"
    and "\<not> duplicateRecording st s f trackInfo"
    and "audioStreams trackInfo = [] \<or> duration trackInfo = 0"
  shows "scanAudioFile st env f (s, ctx)
         = (case findByPath s f of
              None \<Rightarrow>
                (s, ctx\<lparr>stats := (stats ctx)
                     \<lparr>scans := scans (stats ctx) + 1,
                      errors := errors (stats ctx) @
                        [\<lparr>filePath = f,
                          error = (if audioStreams trackInfo = [] then NoAudioTrack
                                   else BadDuration),
                          systemError = []\<rparr>]\<rparr>\<rparr>)
            | Some t \<Rightarrow>
                (s\<lparr>db_tracks := filter (\<lambda>x. track_id x \<noteq> track_id t) (db_tracks s),
                   db_links := filter (\<lambda>l. link_track l \<noteq> track_id t) (db_links s)\<rparr>,
                 ctx\<lparr>stats := (stats ctx)
                     \<lparr>scans := scans (stats ctx) + 1,
                      deletions := deletions (stats ctx) + 1,
                      errors := errors (stats ctx) @
                        [\<lparr>filePath = f,
                          error = (if audioStreams trackInfo = [] then NoAudioTrack
                                   else BadDuration),
                          systemError = []\<rparr>]\<rparr>\<rparr>))"
  using assms
  by (auto simp: scanAudioFile_def Let_def removeIfExists_def removeTrack_def addError_def
           split: option.splits)

theorem scanAudioFile_invalid_audio_witness:
  "scanAudioFile exSettings exEnv ''/music/c.mp3'' (exSession, exContext)
   = (exSession, exContext\<lparr>stats := exStats
        \<lparr>scans := 1,
         errors := [\<lparr>filePath = ''/music/c.mp3'', error = NoAudioTrack, systemError = []\<rparr>]\<rparr>\<rparr>)
   \<and> scanAudioFile exSettings exEnv ''/music/a.mp3'' (exSession, exContext\<lparr>forceScan := True\<rparr>)
   = (exSession\<lparr>db_tracks := []\<rparr>, exContext\<lparr>forceScan := True, stats := exStats
        \<lparr>scans := 1, deletions := 1,
         errors := [\<lparr>filePath = ''/music/a.mp3'', error = BadDuration, systemError = []\<rparr>]\<rparr>\<rparr>)"
proof -
  have nd: "\<not> duplicateRecording exSettings exSession ''/music/c.mp3'' (exTrackInfo\<lparr>audioStreams := []\<rparr>)"
       "\<not> duplicateRecording exSettings exSession ''/music/a.mp3''
            (exTrackInfo\<lparr>recordingMBID := Some ''R1'', duration := 0\<rparr>)"
    by (simp_all add: duplicateRecording_def exTrackInfo_def findByPath_def
                      findByRecordingMBID_def exSession_def exTrack_def)
  have up: "\<not> upToDate exSettings exSession ''/music/c.mp3'' 5000"
    by (simp add: upToDate_def findByPath_def exSession_def exTrack_def)
  have a: "scanAudioFile exSettings exEnv ''/music/c.mp3'' (exSession, exContext)
   = (exSession, exContext\<lparr>stats := exStats
        \<lparr>scans := 1,
         errors := [\<lparr>filePath = ''/music/c.mp3'', error = NoAudioTrack, systemError = []\<rparr>]\<rparr>\<rparr>)"
    using scanAudioFile_invalid_audio
            [of exEnv "''/music/c.mp3''" 5000 exContext exSettings exSession
                "exTrackInfo\<lparr>audioStreams := []\<rparr>"] nd(1) up
    by (simp add: exEnv_def exSession_def exTrack_def findByPath_def exContext_def exStats_def)
  have b: "scanAudioFile exSettings exEnv ''/music/a.mp3'' (exSession, exContext\<lparr>forceScan := True\<rparr>)
   = (exSession\<lparr>db_tracks := []\<rparr>, exContext\<lparr>forceScan := True, stats := exStats
        \<lparr>scans := 1, deletions := 1,
         errors := [\<lparr>filePath = ''/music/a.mp3'', error = BadDuration, systemError = []\<rparr>]\<rparr>\<rparr>)"
    using scanAudioFile_invalid_audio
            [of exEnv "''/music/a.mp3''" 5000 "exContext\<lparr>forceScan := True\<rparr>" exSettings exSession
                "exTrackInfo\<lparr>recordingMBID := Some ''R1'', duration := 0\<rparr>"] nd(2)
    by (simp add: exEnv_def exSession_def exTrack_def findByPath_def exContext_def exStats_def
                  exTrackInfo_def)
  show ?thesis using a b by simp
qed

section \<open>Artist resolution\<close>

text \<open>One record, resolved by its MBID (the loop body, lines 78-89).\<close>

lemma getOrCreateArtist_MBID_step:
  assumes "musicBrainzArtistID artistInfo = Some mbid"
    and "distinct (map artist_id (db_artists s))"
  shows "getOrCreateArtist s artistInfo allowFallbackOnMBIDEntries
         = (case find (\<lambda>a. artist_MBID a = Some mbid) (db_artists s) of
              Some artist \<Rightarrow>
                (Some (artist_id artist),
                 s\<lparr>db_artists := map (\<lambda>a. if artist_id a = artist_id artist
                       then a\<lparr>artist_name := name artistInfo,
                              artist_sortName := (case sortName artistInfo of
                                                    Some sn \<Rightarrow> Some sn
                                                  | None \<Rightarrow> artist_sortName a)\<rparr>
                       else a) (db_artists s)\<rparr>)
            | None \<Rightarrow>
                (Some (freshId (map artist_id (db_artists s))),
                 s\<lparr>db_artists := db_artists s @
                     [\<lparr>artist_id = freshId (map artist_id (db_artists s)),
                       artist_name = name artistInfo,
                       artist_sortName = sortName artistInfo,
                       artist_MBID = Some mbid\<rparr>]\<rparr>))
         \<and> freshId (map artist_id (db_artists s)) \<notin> artist_id ` set (db_artists s)"
proof (cases "find (\<lambda>a. artist_MBID a = Some mbid) (db_artists s)")
  case None
  then show ?thesis
    using assms(1) freshId_notin [of "map artist_id (db_artists s)"]
    by (simp add: getOrCreateArtist_def findArtistByMBID_def createArtist_effect)
next
  case (Some artist)
  then have "artist \<in> set (db_artists s)" by (simp add: find_in_set)
  then show ?thesis
    using assms Some freshId_notin [of "map artist_id (db_artists s)"]
    by (simp add: getOrCreateArtist_def findArtistByMBID_def updateArtistIfNeeded_effect)
qed

text \<open>One record without MBID, resolved by its name (the loop body, lines 91-112).\<close>

lemma getOrCreateArtist_name_step:
  assumes "musicBrainzArtistID artistInfo = None"
    and "name artistInfo \<noteq> []"
    and "distinct (map artist_id (db_artists s))"
  shows "getOrCreateArtist s artistInfo allowFallbackOnMBIDEntries
         = (case (if allowFallbackOnMBIDEntries
                  then (case filter (\<lambda>a. artist_name a = name artistInfo) (db_artists s) of
                          [] \<Rightarrow> None | a # _ \<Rightarrow> Some a)
                  else find (\<lambda>a. artist_MBID a = None)
                         (filter (\<lambda>a. artist_name a = name artistInfo) (db_artists s))) of
              Some artist \<Rightarrow>
                (Some (artist_id artist),
                 s\<lparr>db_artists := map (\<lambda>a. if artist_id a = artist_id artist
                       then a\<lparr>artist_sortName := (case sortName artistInfo of
                                                    Some sn \<Rightarrow> Some sn
                                                  | None \<Rightarrow> artist_sortName a)\<rparr>
                       else a) (db_artists s)\<rparr>)
            | None \<Rightarrow>
                (Some (freshId (map artist_id (db_artists s))),
                 s\<lparr>db_artists := db_artists s @
                     [\<lparr>artist_id = freshId (map artist_id (db_artists s)),
                       artist_name = name artistInfo,
                       artist_sortName = sortName artistInfo,
                       artist_MBID = None\<rparr>]\<rparr>))"
proof -
  let ?named = "filter (\<lambda>a. artist_name a = name artistInfo) (db_artists s)"
  let ?sel = "if allowFallbackOnMBIDEntries
              then (case ?named of [] \<Rightarrow> None | a # _ \<Rightarrow> Some a)
              else find (\<lambda>a. artist_MBID a = None) ?named"
  have sel: "selectSameNamedArtist allowFallbackOnMBIDEntries ?named = ?sel"
    by (simp add: selectSameNamedArtist_find find_first)
  have body: "getOrCreateArtist s artistInfo allowFallbackOnMBIDEntries
         = (case ?sel of
              Some artist \<Rightarrow>
                (Some (artist_id artist),
                 s\<lparr>db_artists := map (\<lambda>a. if artist_id a = artist_id artist
                       then a\<lparr>artist_sortName := (case sortName artistInfo of
                                                    Some sn \<Rightarrow> Some sn
                                                  | None \<Rightarrow> artist_sortName a)\<rparr>
                       else a) (db_artists s)\<rparr>)
            | None \<Rightarrow>
                (Some (freshId (map artist_id (db_artists s))),
                 s\<lparr>db_artists := db_artists s @
                     [\<lparr>artist_id = freshId (map artist_id (db_artists s)),
                       artist_name = name artistInfo,
                       artist_sortName = sortName artistInfo,
                       artist_MBID = None\<rparr>]\<rparr>))"
  proof (cases ?sel)
    case None
    then show ?thesis
      using assms(1,2) sel
      by (simp add: getOrCreateArtist_def findArtistsByName_def createArtist_effect)
  next
    case (Some artist)
    have "selectSameNamedArtist allowFallbackOnMBIDEntries ?named = Some artist"
      using sel Some by simp
    then have "find (\<lambda>a. allowFallbackOnMBIDEntries \<or> artist_MBID a = None) ?named = Some artist"
      by (simp add: selectSameNamedArtist_find)
    then have mem: "artist \<in> set (db_artists s)" and nm: "artist_name artist = name artistInfo"
      using find_in_set by fastforce+
    have key: "artist_id a = artist_id artist \<Longrightarrow> a = artist" if "a \<in> set (db_artists s)" for a
      using assms(3) mem that by (meson distinct_map inj_onD)
    have "map (\<lambda>a. if artist_id a = artist_id artist
                  then a\<lparr>artist_name := name artistInfo,
                         artist_sortName := (case sortName artistInfo of
                                               Some sn \<Rightarrow> Some sn | None \<Rightarrow> artist_sortName a)\<rparr>
                  else a) (db_artists s)
          = map (\<lambda>a. if artist_id a = artist_id artist
                  then a\<lparr>artist_sortName := (case sortName artistInfo of
                                               Some sn \<Rightarrow> Some sn | None \<Rightarrow> artist_sortName a)\<rparr>
                  else a) (db_artists s)"
    proof (rule map_cong [OF refl])
      fix a assume "a \<in> set (db_artists s)"
      then have "artist_id a = artist_id artist \<Longrightarrow> artist_name a = name artistInfo"
        using key nm by blast
      moreover have "a\<lparr>artist_name := artist_name a\<rparr> = a" by simp
      ultimately show "(if artist_id a = artist_id artist
                  then a\<lparr>artist_name := name artistInfo,
                         artist_sortName := (case sortName artistInfo of
                                               Some sn \<Rightarrow> Some sn | None \<Rightarrow> artist_sortName a)\<rparr>
                  else a)
          = (if artist_id a = artist_id artist
                  then a\<lparr>artist_sortName := (case sortName artistInfo of
                                               Some sn \<Rightarrow> Some sn | None \<Rightarrow> artist_sortName a)\<rparr>
                  else a)"
        by (metis (no_types))
    qed
    then show ?thesis
      using assms Some mem sel
      by (simp add: getOrCreateArtist_def findArtistsByName_def updateArtistIfNeeded_effect)
  qed
  show ?thesis by (rule body)
qed

text \<open>
  What follows the artist links in the upsert (the writes of the track's fields and the
  resolution of the release and of the clusters) leaves the artists and the links alone.
\<close>

lemma artists_getOrCreateRelease:
  "db_artists (snd (getOrCreateRelease s a)) = db_artists s"
  "db_links (snd (getOrCreateRelease s a)) = db_links s"
  by (simp_all add: getOrCreateRelease_def createRelease_def modifyRelease_def Let_def
           split: option.splits)

lemma artists_getOrCreateClustersOfType:
  "db_artists (snd (getOrCreateClustersOfType s ct ns)) = db_artists s
   \<and> db_links (snd (getOrCreateClustersOfType s ct ns)) = db_links s"
proof (induction ns arbitrary: s)
  case Nil
  then show ?case by simp
next
  case (Cons n ns)
  obtain c s1 where a: "(case getCluster s ct n of None \<Rightarrow> createCluster s ct n
                         | Some cluster \<Rightarrow> (cluster_id cluster, s)) = (c, s1)"
    by (cases "(case getCluster s ct n of None \<Rightarrow> createCluster s ct n
                         | Some cluster \<Rightarrow> (cluster_id cluster, s))")
  then have "db_artists s1 = db_artists s \<and> db_links s1 = db_links s"
    by (auto simp: createCluster_def Let_def split: option.splits)
  moreover obtain cs s2 where b: "getOrCreateClustersOfType s1 ct ns = (cs, s2)"
    by (cases "getOrCreateClustersOfType s1 ct ns")
  moreover have "db_artists s2 = db_artists s1 \<and> db_links s2 = db_links s1"
    using Cons.IH [of s1] b by simp
  ultimately show ?case using a by simp
qed

lemma artists_getOrCreateClusters:
  "db_artists (snd (getOrCreateClusters s cns)) = db_artists s
   \<and> db_links (snd (getOrCreateClusters s cns)) = db_links s"
proof (induction cns arbitrary: s)
  case Nil
  then show ?case by simp
next
  case (Cons cn cns)
  show ?case
  proof (cases "findClusterType s (fst cn)")
    case None
    then show ?thesis using Cons.IH [of s] by simp
  next
    case (Some ct)
    obtain cs s1 where a: "getOrCreateClustersOfType s ct (snd cn) = (cs, s1)"
      by (cases "getOrCreateClustersOfType s ct (snd cn)")
    obtain cs' s2 where b: "getOrCreateClusters s1 cns = (cs', s2)"
      by (cases "getOrCreateClusters s1 cns")
    have "db_artists s1 = db_artists s \<and> db_links s1 = db_links s"
      using artists_getOrCreateClustersOfType [of s ct "snd cn"] a by simp
    moreover have "db_artists s2 = db_artists s1 \<and> db_links s2 = db_links s1"
      using Cons.IH [of s1] b by simp
    ultimately show ?thesis using Some a b by simp
  qed
qed

lemma artists_modifyTrack:
  "db_artists (modifyTrack s i g) = db_artists s" "db_links (modifyTrack s i g) = db_links s"
  by (simp_all add: modifyTrack_def)

lemma artists_removeTrackFeatures:
  "db_artists (removeTrackFeatures s i) = db_artists s"
  "db_links (removeTrackFeatures s i) = db_links s"
  by (simp_all add: removeTrackFeatures_def)

lemma artists_release_step:
  "db_artists (snd (case a of Some x \<Rightarrow> getOrCreateRelease s x | None \<Rightarrow> (None, s))) = db_artists s"
  "db_links (snd (case a of Some x \<Rightarrow> getOrCreateRelease s x | None \<Rightarrow> (None, s))) = db_links s"
  by (cases a; simp add: artists_getOrCreateRelease)+

lemma artists_features_step:
  "db_artists (case tf of Some x \<Rightarrow> removeTrackFeatures s (features_id x) | None \<Rightarrow> s) = db_artists s"
  "db_links (case tf of Some x \<Rightarrow> removeTrackFeatures s (features_id x) | None \<Rightarrow> s) = db_links s"
  by (cases tf; simp add: artists_removeTrackFeatures)+

lemma updateTrack_artists_links:
  "db_artists (fst (updateTrack st env f lwt ti track (s, ctx)))
   = db_artists (addArtistLinks
       (clearArtistLinks (case track of None \<Rightarrow> snd (createTrack s f) | Some t \<Rightarrow> s)
          (case track of None \<Rightarrow> fst (createTrack s f) | Some t \<Rightarrow> track_id t))
       (case track of None \<Rightarrow> fst (createTrack s f) | Some t \<Rightarrow> track_id t) ti)
   \<and> db_links (fst (updateTrack st env f lwt ti track (s, ctx)))
   = db_links (addArtistLinks
       (clearArtistLinks (case track of None \<Rightarrow> snd (createTrack s f) | Some t \<Rightarrow> s)
          (case track of None \<Rightarrow> fst (createTrack s f) | Some t \<Rightarrow> track_id t))
       (case track of None \<Rightarrow> fst (createTrack s f) | Some t \<Rightarrow> track_id t) ti)"
  by (cases track; cases "createTrack s f") (simp_all add: updateTrack_def Let_def artists_modifyTrack artists_release_step
                   artists_features_step artists_getOrCreateClusters)

text \<open>
  C4. In \<^verbatim>\<open>getOrCreateArtists\<close>, every raw artist record that carries an MBID, at any
  position of the list, is looked up by that MBID in the catalog as the records before
  it have left it. If an artist is found, that artist is appended to the result, its
  stored name becomes the parsed name, its stored sort-name becomes the supplied one when
  one is supplied, and no artist is added. If none is found, one artist is added, with a
  fresh identifier, the parsed name, the MBID and the sort-name when supplied, and it is
  appended to the result. The records after it are then resolved on the catalog so
  updated. The identifiers of the catalog's artists are distinct.
\<close>

theorem getOrCreateArtists_by_MBID:
  assumes "musicBrainzArtistID artistInfo = Some mbid"
    and "distinct (map artist_id (db_artists s))"
  shows "getOrCreateArtists s (earlier @ artistInfo # later) allowFallbackOnMBIDEntries
         = (case getOrCreateArtists s earlier allowFallbackOnMBIDEntries of
              (found, s1) \<Rightarrow>
                (case find (\<lambda>a. artist_MBID a = Some mbid) (db_artists s1) of
                   Some artist \<Rightarrow>
                     (case getOrCreateArtists
                             (s1\<lparr>db_artists := map (\<lambda>a. if artist_id a = artist_id artist
                                    then a\<lparr>artist_name := name artistInfo,
                                           artist_sortName := (case sortName artistInfo of
                                                                 Some sn \<Rightarrow> Some sn
                                                               | None \<Rightarrow> artist_sortName a)\<rparr>
                                    else a) (db_artists s1)\<rparr>)
                             later allowFallbackOnMBIDEntries of
                        (rest, s2) \<Rightarrow> (found @ artist_id artist # rest, s2))
                 | None \<Rightarrow>
                     (case getOrCreateArtists
                             (s1\<lparr>db_artists := db_artists s1 @
                                  [\<lparr>artist_id = freshId (map artist_id (db_artists s1)),
                                    artist_name = name artistInfo,
                                    artist_sortName = sortName artistInfo,
                                    artist_MBID = Some mbid\<rparr>]\<rparr>)
                             later allowFallbackOnMBIDEntries of
                        (rest, s2) \<Rightarrow>
                          (found @ freshId (map artist_id (db_artists s1)) # rest, s2))))
         \<and> freshId (map artist_id
                      (db_artists (snd (getOrCreateArtists s earlier allowFallbackOnMBIDEntries))))
             \<notin> artist_id ` set (db_artists
                      (snd (getOrCreateArtists s earlier allowFallbackOnMBIDEntries)))"
proof -
  obtain found s1 where e: "getOrCreateArtists s earlier allowFallbackOnMBIDEntries = (found, s1)"
    by (cases "getOrCreateArtists s earlier allowFallbackOnMBIDEntries")
  have d1: "distinct (map artist_id (db_artists s1))"
    using getOrCreateArtists_distinct [OF assms(2), of earlier allowFallbackOnMBIDEntries] e by simp
  note step = getOrCreateArtist_MBID_step [OF assms(1) d1, of allowFallbackOnMBIDEntries]
  show ?thesis
    using e step
    by (simp add: getOrCreateArtists_append split: prod.splits option.splits)
qed

theorem getOrCreateArtists_by_MBID_witness:
  "getOrCreateArtists exSession
     [\<lparr>name = ''Qween'', sortName = Some ''Queen, The'', musicBrainzArtistID = Some ''M1''\<rparr>,
      \<lparr>name = ''Bowie'', sortName = None, musicBrainzArtistID = Some ''M2''\<rparr>] False
   = ([1, 2], exSession\<lparr>db_artists :=
        [\<lparr>artist_id = 1, artist_name = ''Qween'', artist_sortName = Some ''Queen, The'',
          artist_MBID = Some ''M1''\<rparr>,
         \<lparr>artist_id = 2, artist_name = ''Bowie'', artist_sortName = None,
          artist_MBID = Some ''M2''\<rparr>]\<rparr>)"
proof -
  have d: "distinct (map artist_id (db_artists exSession))"
    by (simp add: exSession_def)
  have first: "getOrCreateArtists exSession
       ([] @ \<lparr>name = ''Qween'', sortName = Some ''Queen, The'', musicBrainzArtistID = Some ''M1''\<rparr>
           # []) False
     = ([1], exSession\<lparr>db_artists :=
        [\<lparr>artist_id = 1, artist_name = ''Qween'', artist_sortName = Some ''Queen, The'',
          artist_MBID = Some ''M1''\<rparr>]\<rparr>)"
    using getOrCreateArtists_by_MBID
            [of "\<lparr>name = ''Qween'', sortName = Some ''Queen, The'',
                  musicBrainzArtistID = Some ''M1''\<rparr>" "''M1''" exSession "[]" "[]" False] d
    by (simp add: exSession_def exArtist_def)
  show ?thesis
    using getOrCreateArtists_by_MBID
            [of "\<lparr>name = ''Bowie'', sortName = None, musicBrainzArtistID = Some ''M2''\<rparr>"
                "''M2''" exSession
                "[\<lparr>name = ''Qween'', sortName = Some ''Queen, The'',
                   musicBrainzArtistID = Some ''M1''\<rparr>]" "[]" False] d first
    by (simp add: exSession_def freshId_def)
qed

text \<open>
  C2. In \<^verbatim>\<open>getOrCreateArtists\<close>, every raw artist record with no MBID and a non-empty
  name, at any position of the list, is resolved among the artists of the same name, in
  catalog order, in the catalog as the records before it have left it: without the
  fallback flag the first one that has no MBID is taken, with the flag the first one
  whatever its MBID; the artist taken is appended to the result (its sort-name becomes the
  supplied one when one is supplied); when none is taken a new artist without MBID is
  added under a fresh identifier. The links of a track are built by calling
  \<^verbatim>\<open>getOrCreateArtists\<close> with the flag off for the roles Artist and ReleaseArtist and
  on for every other role, and the artists and links of the catalog after the scan of a
  file that reaches the upsert are the ones so built, from the links of the track cleared.
  The identifiers of the catalog's artists are distinct.
\<close>

theorem getOrCreateArtists_by_name:
  assumes "musicBrainzArtistID artistInfo = None"
    and "name artistInfo \<noteq> []"
    and "distinct (map artist_id (db_artists s))"
  shows "getOrCreateArtists s (earlier @ artistInfo # later) allowFallbackOnMBIDEntries
         = (case getOrCreateArtists s earlier allowFallbackOnMBIDEntries of
              (found, s1) \<Rightarrow>
                (case (if allowFallbackOnMBIDEntries
                       then (case filter (\<lambda>a. artist_name a = name artistInfo) (db_artists s1) of
                               [] \<Rightarrow> None | a # _ \<Rightarrow> Some a)
                       else find (\<lambda>a. artist_MBID a = None)
                              (filter (\<lambda>a. artist_name a = name artistInfo) (db_artists s1))) of
                   Some artist \<Rightarrow>
                     (case getOrCreateArtists
                             (s1\<lparr>db_artists := map (\<lambda>a. if artist_id a = artist_id artist
                                    then a\<lparr>artist_sortName := (case sortName artistInfo of
                                                                 Some sn \<Rightarrow> Some sn
                                                               | None \<Rightarrow> artist_sortName a)\<rparr>
                                    else a) (db_artists s1)\<rparr>)
                             later allowFallbackOnMBIDEntries of
                        (rest, s2) \<Rightarrow> (found @ artist_id artist # rest, s2))
                 | None \<Rightarrow>
                     (case getOrCreateArtists
                             (s1\<lparr>db_artists := db_artists s1 @
                                  [\<lparr>artist_id = freshId (map artist_id (db_artists s1)),
                                    artist_name = name artistInfo,
                                    artist_sortName = sortName artistInfo,
                                    artist_MBID = None\<rparr>]\<rparr>)
                             later allowFallbackOnMBIDEntries of
                        (rest, s2) \<Rightarrow>
                          (found @ freshId (map artist_id (db_artists s1)) # rest, s2))))
         \<and> freshId (map artist_id
                      (db_artists (snd (getOrCreateArtists s earlier allowFallbackOnMBIDEntries))))
             \<notin> artist_id ` set (db_artists
                      (snd (getOrCreateArtists s earlier allowFallbackOnMBIDEntries)))
         \<and> addArtistLinks s track trackInfo
           = foldl (\<lambda>s1 ty.
               foldl (\<lambda>s2 roleInfos.
                        case getOrCreateArtists s2 (snd roleInfos)
                               (ty \<noteq> Artist \<and> ty \<noteq> ReleaseArtist) of
                          (found, s3) \<Rightarrow>
                            foldl (\<lambda>s4 a. addArtistLink s4 track a ty (fst roleInfos)) s3 found)
                 s1 (roleLists trackInfo ty))
              s [Artist, ReleaseArtist, Conductor, Composer, Lyricist, Mixer, Performer,
                 Producer, Remixer]
         \<and> ((\<exists>lastWriteTime. getLastWriteTime env f = Inr lastWriteTime
                \<and> (forceScan ctx \<or> \<not> upToDate st s f lastWriteTime))
             \<and> parse env f = Some trackInfo
             \<and> \<not> duplicateRecording st s f trackInfo
             \<and> audioStreams trackInfo \<noteq> [] \<and> duration trackInfo \<noteq> 0
             \<longrightarrow> db_artists (fst (scanAudioFile st env f (s, ctx)))
                 = db_artists
                     (addArtistLinks
                 (clearArtistLinks
                    (case findByPath s f of None \<Rightarrow> snd (createTrack s f) | Some t \<Rightarrow> s)
                    (case findByPath s f of None \<Rightarrow> fst (createTrack s f) | Some t \<Rightarrow> track_id t))
                 (case findByPath s f of None \<Rightarrow> fst (createTrack s f) | Some t \<Rightarrow> track_id t)
                 trackInfo)
               \<and> db_links (fst (scanAudioFile st env f (s, ctx)))
                 = db_links
                     (addArtistLinks
                 (clearArtistLinks
                    (case findByPath s f of None \<Rightarrow> snd (createTrack s f) | Some t \<Rightarrow> s)
                    (case findByPath s f of None \<Rightarrow> fst (createTrack s f) | Some t \<Rightarrow> track_id t))
                 (case findByPath s f of None \<Rightarrow> fst (createTrack s f) | Some t \<Rightarrow> track_id t)
                 trackInfo))"
proof -
  obtain found s1 where e: "getOrCreateArtists s earlier allowFallbackOnMBIDEntries = (found, s1)"
    by (cases "getOrCreateArtists s earlier allowFallbackOnMBIDEntries")
  have d1: "distinct (map artist_id (db_artists s1))"
    using getOrCreateArtists_distinct [OF assms(3), of earlier allowFallbackOnMBIDEntries] e by simp
  have step: "getOrCreateArtist s1 artistInfo allowFallbackOnMBIDEntries
         = (case (if allowFallbackOnMBIDEntries
                  then (case filter (\<lambda>a. artist_name a = name artistInfo) (db_artists s1) of
                          [] \<Rightarrow> None | a # _ \<Rightarrow> Some a)
                  else find (\<lambda>a. artist_MBID a = None)
                         (filter (\<lambda>a. artist_name a = name artistInfo) (db_artists s1))) of
              Some artist \<Rightarrow>
                (Some (artist_id artist),
                 s1\<lparr>db_artists := map (\<lambda>a. if artist_id a = artist_id artist
                       then a\<lparr>artist_sortName := (case sortName artistInfo of
                                                    Some sn \<Rightarrow> Some sn
                                                  | None \<Rightarrow> artist_sortName a)\<rparr>
                       else a) (db_artists s1)\<rparr>)
            | None \<Rightarrow>
                (Some (freshId (map artist_id (db_artists s1))),
                 s1\<lparr>db_artists := db_artists s1 @
                     [\<lparr>artist_id = freshId (map artist_id (db_artists s1)),
                       artist_name = name artistInfo,
                       artist_sortName = sortName artistInfo,
                       artist_MBID = None\<rparr>]\<rparr>))"
    using getOrCreateArtist_name_step [OF assms(1,2) d1, of allowFallbackOnMBIDEntries] .
  have a: "getOrCreateArtists s (earlier @ artistInfo # later) allowFallbackOnMBIDEntries
         = (case getOrCreateArtists s earlier allowFallbackOnMBIDEntries of
              (found, s1) \<Rightarrow>
                (case (if allowFallbackOnMBIDEntries
                       then (case filter (\<lambda>a. artist_name a = name artistInfo) (db_artists s1) of
                               [] \<Rightarrow> None | a # _ \<Rightarrow> Some a)
                       else find (\<lambda>a. artist_MBID a = None)
                              (filter (\<lambda>a. artist_name a = name artistInfo) (db_artists s1))) of
                   Some artist \<Rightarrow>
                     (case getOrCreateArtists
                             (s1\<lparr>db_artists := map (\<lambda>a. if artist_id a = artist_id artist
                                    then a\<lparr>artist_sortName := (case sortName artistInfo of
                                                                 Some sn \<Rightarrow> Some sn
                                                               | None \<Rightarrow> artist_sortName a)\<rparr>
                                    else a) (db_artists s1)\<rparr>)
                             later allowFallbackOnMBIDEntries of
                        (rest, s2) \<Rightarrow> (found @ artist_id artist # rest, s2))
                 | None \<Rightarrow>
                     (case getOrCreateArtists
                             (s1\<lparr>db_artists := db_artists s1 @
                                  [\<lparr>artist_id = freshId (map artist_id (db_artists s1)),
                                    artist_name = name artistInfo,
                                    artist_sortName = sortName artistInfo,
                                    artist_MBID = None\<rparr>]\<rparr>)
                             later allowFallbackOnMBIDEntries of
                        (rest, s2) \<Rightarrow>
                          (found @ freshId (map artist_id (db_artists s1)) # rest, s2))))"
  proof (cases "if allowFallbackOnMBIDEntries
                then (case filter (\<lambda>a. artist_name a = name artistInfo) (db_artists s1) of
                        [] \<Rightarrow> None | a # _ \<Rightarrow> Some a)
                else find (\<lambda>a. artist_MBID a = None)
                       (filter (\<lambda>a. artist_name a = name artistInfo) (db_artists s1))")
    case None
    then have "getOrCreateArtist s1 artistInfo allowFallbackOnMBIDEntries
               = (Some (freshId (map artist_id (db_artists s1))),
                  s1\<lparr>db_artists := db_artists s1 @
                     [\<lparr>artist_id = freshId (map artist_id (db_artists s1)),
                       artist_name = name artistInfo,
                       artist_sortName = sortName artistInfo,
                       artist_MBID = None\<rparr>]\<rparr>)"
      using step by simp
    then show ?thesis
      by (simp add: getOrCreateArtists_append e None split: prod.splits split del: if_split)
  next
    case (Some artist)
    then have "getOrCreateArtist s1 artistInfo allowFallbackOnMBIDEntries
               = (Some (artist_id artist),
                 s1\<lparr>db_artists := map (\<lambda>a. if artist_id a = artist_id artist
                       then a\<lparr>artist_sortName := (case sortName artistInfo of
                                                    Some sn \<Rightarrow> Some sn
                                                  | None \<Rightarrow> artist_sortName a)\<rparr>
                       else a) (db_artists s1)\<rparr>)"
      using step by simp
    then show ?thesis
      by (simp add: getOrCreateArtists_append e Some split: prod.splits split del: if_split)
  qed
  have b: "freshId (map artist_id
                      (db_artists (snd (getOrCreateArtists s earlier allowFallbackOnMBIDEntries))))
             \<notin> artist_id ` set (db_artists
                      (snd (getOrCreateArtists s earlier allowFallbackOnMBIDEntries)))"
    using freshId_notin [of "map artist_id (db_artists s1)"] e by simp
  have c: "db_artists (fst (scanAudioFile st env f (s, ctx)))
                 = db_artists
                     (addArtistLinks
                 (clearArtistLinks
                    (case findByPath s f of None \<Rightarrow> snd (createTrack s f) | Some t \<Rightarrow> s)
                    (case findByPath s f of None \<Rightarrow> fst (createTrack s f) | Some t \<Rightarrow> track_id t))
                 (case findByPath s f of None \<Rightarrow> fst (createTrack s f) | Some t \<Rightarrow> track_id t)
                 trackInfo)
               \<and> db_links (fst (scanAudioFile st env f (s, ctx)))
                 = db_links
                     (addArtistLinks
                 (clearArtistLinks
                    (case findByPath s f of None \<Rightarrow> snd (createTrack s f) | Some t \<Rightarrow> s)
                    (case findByPath s f of None \<Rightarrow> fst (createTrack s f) | Some t \<Rightarrow> track_id t))
                 (case findByPath s f of None \<Rightarrow> fst (createTrack s f) | Some t \<Rightarrow> track_id t)
                 trackInfo)"
    if "getLastWriteTime env f = Inr lastWriteTime"
      and "forceScan ctx \<or> \<not> upToDate st s f lastWriteTime"
      and "parse env f = Some trackInfo"
      and "\<not> duplicateRecording st s f trackInfo"
      and "audioStreams trackInfo \<noteq> []" and "duration trackInfo \<noteq> 0"
    for lastWriteTime
  proof -
    have "scanAudioFile st env f (s, ctx)
          = updateTrack st env f lastWriteTime trackInfo (findByPath s f)
              (s, ctx\<lparr>stats := (stats ctx)\<lparr>scans := scans (stats ctx) + 1\<rparr>\<rparr>)"
      using that by (auto simp: scanAudioFile_def Let_def)
    then show ?thesis
      using updateTrack_artists_links [of st env f lastWriteTime trackInfo "findByPath s f" s]
      by simp
  qed
  show ?thesis
    using a b c addArtistLinks_roles [of s track trackInfo] by blast
qed

theorem getOrCreateArtists_by_name_witness:
  "getOrCreateArtists exSession [exArtistInfo, exArtistInfo] False
   = ([2, 2], exSession\<lparr>db_artists := [exArtist, \<lparr>artist_id = 2, artist_name = ''Queen'', artist_sortName = None, artist_MBID = None\<rparr>]\<rparr>)
   \<and> getOrCreateArtists exSession [exArtistInfo, exArtistInfo] True = ([1, 1], exSession)
   \<and> addArtistLinks exSession 1 (exTrackInfo\<lparr>artists := [exArtistInfo]\<rparr>)
     = exSession\<lparr>db_artists := [exArtist, \<lparr>artist_id = 2, artist_name = ''Queen'', artist_sortName = None, artist_MBID = None\<rparr>],
         db_links := [\<lparr>link_id = 1, link_track = 1, link_artist = 2, link_type = Artist,
                       link_role = []\<rparr>]\<rparr>
   \<and> addArtistLinks exSession 1 (exTrackInfo\<lparr>albumArtists := [exArtistInfo]\<rparr>)
     = exSession\<lparr>db_artists := [exArtist, \<lparr>artist_id = 2, artist_name = ''Queen'', artist_sortName = None, artist_MBID = None\<rparr>],
         db_links := [\<lparr>link_id = 1, link_track = 1, link_artist = 2, link_type = ReleaseArtist,
                       link_role = []\<rparr>]\<rparr>
   \<and> addArtistLinks exSession 1 (exTrackInfo\<lparr>performerArtists := [(''vocals'', [exArtistInfo])]\<rparr>)
     = exSession\<lparr>db_links := [\<lparr>link_id = 1, link_track = 1, link_artist = 1,
                                 link_type = Performer, link_role = ''vocals''\<rparr>]\<rparr>
   \<and> db_artists (fst (scanAudioFile exSettings exEnvF ''/music/f.mp3'' (exSession, exContext)))
     = [exArtist, \<lparr>artist_id = 2, artist_name = ''Queen'', artist_sortName = None, artist_MBID = None\<rparr>]
   \<and> db_links (fst (scanAudioFile exSettings exEnvF ''/music/f.mp3'' (exSession, exContext)))
     = [\<lparr>link_id = 1, link_track = 2, link_artist = 2, link_type = ReleaseArtist, link_role = []\<rparr>,
        \<lparr>link_id = 2, link_track = 2, link_artist = 1, link_type = Performer,
         link_role = ''vocals''\<rparr>]"
proof -
  have m: "musicBrainzArtistID exArtistInfo = None" and n: "name exArtistInfo \<noteq> []"
    by (simp_all add: exArtistInfo_def)
  have d: "distinct (map artist_id (db_artists exSession))"
    by (simp add: exSession_def)
  note T = getOrCreateArtists_by_name [OF m n d]
  have one: "getOrCreateArtists exSession [exArtistInfo] False
             = ([2], exSession\<lparr>db_artists := [exArtist, \<lparr>artist_id = 2, artist_name = ''Queen'', artist_sortName = None, artist_MBID = None\<rparr>]\<rparr>)"
            "getOrCreateArtists exSession [exArtistInfo] True = ([1], exSession)"
    using T [where earlier = "[]" and later = "[]" and allowFallbackOnMBIDEntries = False]
          T [where earlier = "[]" and later = "[]" and allowFallbackOnMBIDEntries = True]
    by (simp_all add: exSession_def exArtist_def exArtistInfo_def freshId_def)
  have two: "getOrCreateArtists exSession [exArtistInfo, exArtistInfo] False
             = ([2, 2], exSession\<lparr>db_artists := [exArtist, \<lparr>artist_id = 2, artist_name = ''Queen'', artist_sortName = None, artist_MBID = None\<rparr>]\<rparr>)"
            "getOrCreateArtists exSession [exArtistInfo, exArtistInfo] True = ([1, 1], exSession)"
    using T [where earlier = "[exArtistInfo]" and later = "[]" and allowFallbackOnMBIDEntries = False]
          T [where earlier = "[exArtistInfo]" and later = "[]" and allowFallbackOnMBIDEntries = True]
          one
    by (simp_all add: exSession_def exArtist_def exArtistInfo_def freshId_def)
  have roles: "addArtistLinks exSession 1 (exTrackInfo\<lparr>artists := [exArtistInfo]\<rparr>)
     = exSession\<lparr>db_artists := [exArtist, \<lparr>artist_id = 2, artist_name = ''Queen'', artist_sortName = None, artist_MBID = None\<rparr>],
         db_links := [\<lparr>link_id = 1, link_track = 1, link_artist = 2, link_type = Artist,
                       link_role = []\<rparr>]\<rparr>"
    "addArtistLinks exSession 1 (exTrackInfo\<lparr>albumArtists := [exArtistInfo]\<rparr>)
     = exSession\<lparr>db_artists := [exArtist, \<lparr>artist_id = 2, artist_name = ''Queen'', artist_sortName = None, artist_MBID = None\<rparr>],
         db_links := [\<lparr>link_id = 1, link_track = 1, link_artist = 2, link_type = ReleaseArtist,
                       link_role = []\<rparr>]\<rparr>"
    "addArtistLinks exSession 1 (exTrackInfo\<lparr>performerArtists := [(''vocals'', [exArtistInfo])]\<rparr>)
     = exSession\<lparr>db_links := [\<lparr>link_id = 1, link_track = 1, link_artist = 1,
                                 link_type = Performer, link_role = ''vocals''\<rparr>]\<rparr>"
    using one
          T [where earlier = "[]" and later = "[]" and track = 1
               and trackInfo = "exTrackInfo\<lparr>artists := [exArtistInfo]\<rparr>"]
          T [where earlier = "[]" and later = "[]" and track = 1
               and trackInfo = "exTrackInfo\<lparr>albumArtists := [exArtistInfo]\<rparr>"]
          T [where earlier = "[]" and later = "[]" and track = 1
               and trackInfo = "exTrackInfo\<lparr>performerArtists := [(''vocals'', [exArtistInfo])]\<rparr>"]
    by (simp_all add: roleLists_def exTrackInfo_def addArtistLink_def freshId_def exSession_def)
  have reach: "(\<exists>lastWriteTime. getLastWriteTime exEnvF ''/music/f.mp3'' = Inr lastWriteTime
                  \<and> (forceScan exContext
                       \<or> \<not> upToDate exSettings exSession ''/music/f.mp3'' lastWriteTime))
               \<and> parse exEnvF ''/music/f.mp3'' = Some (exTrackInfo\<lparr>albumArtists := [exArtistInfo], performerArtists := [(''vocals'', [exArtistInfo])]\<rparr>)
               \<and> \<not> duplicateRecording exSettings exSession ''/music/f.mp3'' (exTrackInfo\<lparr>albumArtists := [exArtistInfo], performerArtists := [(''vocals'', [exArtistInfo])]\<rparr>)
               \<and> audioStreams (exTrackInfo\<lparr>albumArtists := [exArtistInfo], performerArtists := [(''vocals'', [exArtistInfo])]\<rparr>) \<noteq> [] \<and> duration (exTrackInfo\<lparr>albumArtists := [exArtistInfo], performerArtists := [(''vocals'', [exArtistInfo])]\<rparr>) \<noteq> 0"
    by (simp add: exEnvF_def exEnv_def upToDate_def findByPath_def exSession_def exTrack_def
                  duplicateRecording_def exTrackInfo_def)
  have start: "findByPath exSession ''/music/f.mp3'' = None"
    "createTrack exSession ''/music/f.mp3'' = (2, snd (createTrack exSession ''/music/f.mp3''))"
    by (simp_all add: findByPath_def createTrack_def exSession_def exTrack_def freshId_def Let_def)
  have links: "db_artists (snd (createTrack exSession ''/music/f.mp3'')) = [exArtist]"
    "db_links (snd (createTrack exSession ''/music/f.mp3'')) = []"
    by (simp_all add: createTrack_def exSession_def Let_def)
  have scan: "db_artists (fst (scanAudioFile exSettings exEnvF ''/music/f.mp3'' (exSession, exContext)))
              = db_artists (addArtistLinks
                  (clearArtistLinks (snd (createTrack exSession ''/music/f.mp3'')) 2) 2 (exTrackInfo\<lparr>albumArtists := [exArtistInfo], performerArtists := [(''vocals'', [exArtistInfo])]\<rparr>))
            \<and> db_links (fst (scanAudioFile exSettings exEnvF ''/music/f.mp3'' (exSession, exContext)))
              = db_links (addArtistLinks
                  (clearArtistLinks (snd (createTrack exSession ''/music/f.mp3'')) 2) 2 (exTrackInfo\<lparr>albumArtists := [exArtistInfo], performerArtists := [(''vocals'', [exArtistInfo])]\<rparr>))"
    using T [where earlier = "[]" and later = "[]" and env = exEnvF and f = "''/music/f.mp3''"
               and ctx = exContext and st = exSettings and trackInfo = "(exTrackInfo\<lparr>albumArtists := [exArtistInfo], performerArtists := [(''vocals'', [exArtistInfo])]\<rparr>)"] reach start
    by (metis (no_types, lifting) fst_conv option.simps(4))
  have ev: "db_artists (addArtistLinks
                  (clearArtistLinks (snd (createTrack exSession ''/music/f.mp3'')) 2) 2 (exTrackInfo\<lparr>albumArtists := [exArtistInfo], performerArtists := [(''vocals'', [exArtistInfo])]\<rparr>))
            = [exArtist, \<lparr>artist_id = 2, artist_name = ''Queen'', artist_sortName = None, artist_MBID = None\<rparr>]"
    "db_links (addArtistLinks
                  (clearArtistLinks (snd (createTrack exSession ''/music/f.mp3'')) 2) 2 (exTrackInfo\<lparr>albumArtists := [exArtistInfo], performerArtists := [(''vocals'', [exArtistInfo])]\<rparr>))
     = [\<lparr>link_id = 1, link_track = 2, link_artist = 2, link_type = ReleaseArtist, link_role = []\<rparr>,
        \<lparr>link_id = 2, link_track = 2, link_artist = 1, link_type = Performer,
         link_role = ''vocals''\<rparr>]"
    by (simp_all add: addArtistLinks_def linkArtists_def Let_def exTrackInfo_def exArtistInfo_def
                      getOrCreateArtist_def findArtistsByName_def createArtist_def newArtist_def
                      updateArtistIfNeeded_def modifyArtist_def clearArtistLinks_def links
                      addArtistLink_def freshId_def exArtist_def)
  show ?thesis using two roles scan ev by simp
qed

section \<open>Construction of the scan step\<close>

text \<open>
  C8. The option \<^verbatim>\<open>scanner-parser-read-style\<close> selects the read style: \<^verbatim>\<open>fast\<close>,
  \<^verbatim>\<open>average\<close> and \<^verbatim>\<open>accurate\<close> give Fast, Average and Accurate, an unset option gives
  Accurate, and with any other value the constructor throws, so that no scan step exists
  and no entry is processed.
\<close>

theorem getParserReadStyle_cases:
  "(config ''scanner-parser-read-style'' = Some ''fast'' \<longrightarrow>
      getParserReadStyle config = Inr Fast
      \<and> newScanStepScanFiles config initParams
        = Inr \<lparr>settings = initParams, metadataParser = Fast\<rparr>)
   \<and> (config ''scanner-parser-read-style'' = Some ''average'' \<longrightarrow>
      getParserReadStyle config = Inr Average
      \<and> newScanStepScanFiles config initParams
        = Inr \<lparr>settings = initParams, metadataParser = Average\<rparr>)
   \<and> (config ''scanner-parser-read-style'' = Some ''accurate'' \<longrightarrow>
      getParserReadStyle config = Inr Accurate
      \<and> newScanStepScanFiles config initParams
        = Inr \<lparr>settings = initParams, metadataParser = Accurate\<rparr>)
   \<and> (config ''scanner-parser-read-style'' = None \<longrightarrow>
      getParserReadStyle config = Inr Accurate
      \<and> newScanStepScanFiles config initParams
        = Inr \<lparr>settings = initParams, metadataParser = Accurate\<rparr>)
   \<and> (config ''scanner-parser-read-style'' = Some v
      \<and> v \<noteq> ''fast'' \<and> v \<noteq> ''average'' \<and> v \<noteq> ''accurate'' \<longrightarrow>
      getParserReadStyle config
        = Inl (LmsException invalidReadStyle)
      \<and> newScanStepScanFiles config initParams
        = Inl (LmsException invalidReadStyle)
      \<and> constructAndProcess config initParams env entries r
        = Inl (LmsException invalidReadStyle))"
  by (simp add: getParserReadStyle_def getString_def newScanStepScanFiles_def
                constructAndProcess_def)


theorem getParserReadStyle_cases_witness:
  "getParserReadStyle [''scanner-parser-read-style'' \<mapsto> ''fast''] = Inr Fast
   \<and> getParserReadStyle [''scanner-parser-read-style'' \<mapsto> ''average''] = Inr Average
   \<and> getParserReadStyle [''scanner-parser-read-style'' \<mapsto> ''accurate''] = Inr Accurate
   \<and> getParserReadStyle Map.empty = Inr Accurate
   \<and> newScanStepScanFiles Map.empty exSettings
     = Inr \<lparr>settings = exSettings, metadataParser = Accurate\<rparr>
   \<and> constructAndProcess [''scanner-parser-read-style'' \<mapsto> ''quick''] exSettings exEnv
       [exEntry] exRun = Inl (LmsException invalidReadStyle)"
  using getParserReadStyle_cases
          [of "[''scanner-parser-read-style'' \<mapsto> ''fast'']" exSettings "''quick''" exEnv "[exEntry]" exRun]
        getParserReadStyle_cases
          [of "[''scanner-parser-read-style'' \<mapsto> ''average'']" exSettings "''quick''" exEnv "[exEntry]" exRun]
        getParserReadStyle_cases
          [of "[''scanner-parser-read-style'' \<mapsto> ''accurate'']" exSettings "''quick''" exEnv "[exEntry]" exRun]
        getParserReadStyle_cases
          [of Map.empty exSettings "''quick''" exEnv "[exEntry]" exRun]
        getParserReadStyle_cases
          [of "[''scanner-parser-read-style'' \<mapsto> ''quick'']" exSettings "''quick''" exEnv "[exEntry]" exRun]
  by simp

section \<open>The upserted track\<close>

text \<open>Resolution of artists, releases and clusters leaves the table of tracks alone.\<close>

lemma tracks_updateArtistIfNeeded [simp]:
  "db_tracks (updateArtistIfNeeded s a i) = db_tracks s"
  by (simp add: updateArtistIfNeeded_def modifyArtist_def Let_def split: option.splits)

lemma tracks_getOrCreateArtist [simp]:
  "db_tracks (snd (getOrCreateArtist s i allow)) = db_tracks s"
  by (simp add: getOrCreateArtist_def createArtist_effect split: option.splits)

lemma tracks_getOrCreateArtists [simp]:
  "db_tracks (snd (getOrCreateArtists s infos allow)) = db_tracks s"
proof (induction infos arbitrary: s)
  case Nil
  then show ?case by simp
next
  case (Cons i infos)
  obtain r s1 where a: "getOrCreateArtist s i allow = (r, s1)" by (cases "getOrCreateArtist s i allow")
  obtain rs s2 where b: "getOrCreateArtists s1 infos allow = (rs, s2)"
    by (cases "getOrCreateArtists s1 infos allow")
  have "db_tracks s1 = db_tracks s" using tracks_getOrCreateArtist [of s i allow] a by simp
  moreover have "db_tracks s2 = db_tracks s1" using Cons.IH [of s1] b by simp
  ultimately show ?case using a b by simp
qed

lemma tracks_foldl_addArtistLink [simp]:
  "db_tracks (foldl (\<lambda>s1 a. addArtistLink s1 track a ty role) s found) = db_tracks s"
  by (induction found arbitrary: s) (simp_all add: addArtistLink_def)

lemma tracks_linkArtists [simp]:
  "db_tracks (linkArtists s track infos allow ty role) = db_tracks s"
proof -
  obtain found s' where a: "getOrCreateArtists s infos allow = (found, s')"
    by (cases "getOrCreateArtists s infos allow")
  then have "db_tracks s' = db_tracks s" using tracks_getOrCreateArtists [of s infos allow] by simp
  then show ?thesis using a by (simp add: linkArtists_def)
qed

lemma tracks_linkPerformers [simp]:
  "db_tracks (linkPerformers s track ps) = db_tracks s"
  by (induction ps arbitrary: s) simp_all

lemma tracks_addArtistLinks [simp]:
  "db_tracks (addArtistLinks s track trackInfo) = db_tracks s"
  by (simp add: addArtistLinks_def Let_def)

lemma tracks_getOrCreateRelease [simp]:
  "db_tracks (snd (getOrCreateRelease s a)) = db_tracks s"
  by (simp add: getOrCreateRelease_def createRelease_def modifyRelease_def Let_def
           split: option.splits)

lemma tracks_getOrCreateClustersOfType [simp]:
  "db_tracks (snd (getOrCreateClustersOfType s ct ns)) = db_tracks s"
proof (induction ns arbitrary: s)
  case Nil
  then show ?case by simp
next
  case (Cons n ns)
  obtain c s1 where a: "(case getCluster s ct n of None \<Rightarrow> createCluster s ct n
                         | Some cluster \<Rightarrow> (cluster_id cluster, s)) = (c, s1)"
    by (cases "(case getCluster s ct n of None \<Rightarrow> createCluster s ct n
                         | Some cluster \<Rightarrow> (cluster_id cluster, s))")
  then have "db_tracks s1 = db_tracks s"
    by (auto simp: createCluster_def Let_def split: option.splits)
  moreover obtain cs s2 where b: "getOrCreateClustersOfType s1 ct ns = (cs, s2)"
    by (cases "getOrCreateClustersOfType s1 ct ns")
  moreover have "db_tracks s2 = db_tracks s1" using Cons.IH [of s1] b by simp
  ultimately show ?case using a by simp
qed

lemma tracks_getOrCreateClusters [simp]:
  "db_tracks (snd (getOrCreateClusters s cns)) = db_tracks s"
proof (induction cns arbitrary: s)
  case Nil
  then show ?case by simp
next
  case (Cons cn cns)
  show ?case
  proof (cases "findClusterType s (fst cn)")
    case None
    then show ?thesis using Cons.IH [of s] by simp
  next
    case (Some ct)
    obtain cs s1 where a: "getOrCreateClustersOfType s ct (snd cn) = (cs, s1)"
      by (cases "getOrCreateClustersOfType s ct (snd cn)")
    obtain cs' s2 where b: "getOrCreateClusters s1 cns = (cs', s2)"
      by (cases "getOrCreateClusters s1 cns")
    have "db_tracks s1 = db_tracks s" using tracks_getOrCreateClustersOfType [of s ct "snd cn"] a by simp
    moreover have "db_tracks s2 = db_tracks s1" using Cons.IH [of s1] b by simp
    ultimately show ?thesis using Some a b by simp
  qed
qed

lemma find_append_last:
  "find P (xs @ [x]) = (case find P xs of Some y \<Rightarrow> Some y | None \<Rightarrow> if P x then Some x else None)"
  by (induction xs) auto

lemma tracks_modifyTrack [simp]:
  "db_tracks (modifyTrack s i g) = map (\<lambda>t. if track_id t = i then g t else t) (db_tracks s)"
  by (simp add: modifyTrack_def)

lemma tracks_clearArtistLinks [simp]: "db_tracks (clearArtistLinks s i) = db_tracks s"
  by (simp add: clearArtistLinks_def)

lemma tracks_removeTrackFeatures [simp]: "db_tracks (removeTrackFeatures s i) = db_tracks s"
  by (simp add: removeTrackFeatures_def)

lemma tracks_release_step [simp]:
  "db_tracks (snd (case a of Some x \<Rightarrow> getOrCreateRelease s x | None \<Rightarrow> (None, s))) = db_tracks s"
  by (cases a) simp_all

lemma tracks_features_step [simp]:
  "db_tracks (case tf of Some x \<Rightarrow> removeTrackFeatures s (features_id x) | None \<Rightarrow> s) = db_tracks s"
  by (cases tf) simp_all

lemma find_map_path:
  assumes "\<And>t. track_path (h t) = track_path t"
  shows "find (\<lambda>t. track_path t = f) (map h xs) = map_option h (find (\<lambda>t. track_path t = f) xs)"
  using assms by (induction xs) auto

lemma updateTrack_date:
  assumes "track = findByPath s f"
  shows "map_option track_date (findByPath (fst (updateTrack st env f lwt ti track (s, ctx))) f)
         = Some (if \<not> isValid (date ti) \<and> isValid (originalDate ti)
                 then originalDate ti else date ti)"
proof (cases "findByPath s f")
  case None
  then show ?thesis
    using assms
    by (simp add: updateTrack_def Let_def findByPath_def find_map_path createTrack_def
                  find_append_last)
next
  case (Some t0)
  then show ?thesis
    using assms
    by (simp add: updateTrack_def Let_def findByPath_def find_map_path)
qed

lemma getOrCreateRelease_no_album:
  "albumName a = [] \<Longrightarrow> musicBrainzAlbumID a = None \<Longrightarrow> getOrCreateRelease s a = (None, s)"
  by (simp add: getOrCreateRelease_def)

lemma updateTrack_no_release:
  assumes "track = findByPath s f"
    and "album ti = Some a" and "albumName a = []" and "musicBrainzAlbumID a = None"
  shows "map_option track_release (findByPath (fst (updateTrack st env f lwt ti track (s, ctx))) f)
         = Some None"
proof (cases "findByPath s f")
  case None
  then show ?thesis
    using assms
    by (simp add: updateTrack_def Let_def findByPath_def find_map_path createTrack_def
                  find_append_last getOrCreateRelease_no_album)
next
  case (Some t0)
  then show ?thesis
    using assms
    by (simp add: updateTrack_def Let_def findByPath_def find_map_path
                  getOrCreateRelease_no_album)
qed

lemma addArtistLinks_album [simp]:
  "addArtistLinks s tid (ti\<lparr>album := x\<rparr>) = addArtistLinks s tid ti"
  by (simp add: addArtistLinks_def)

lemma updateTrack_album_irrelevant:
  assumes "album ti = Some a" and "albumName a = []" and "musicBrainzAlbumID a = None"
  shows "updateTrack st env f lwt ti track sc
         = updateTrack st (env\<lparr>parse := p\<rparr>) f lwt (ti\<lparr>album := None\<rparr>) track sc"
  using assms
  by (simp add: updateTrack_def getOrCreateRelease_no_album cong: if_cong)

text \<open>
  C7. A parsed record that reaches the upsert (the file is not skipped, not a duplicate
  recording, has an audio stream and a non-zero duration): afterwards the track stored
  for the file has as release date the original release date when the parsed release date
  is not valid and the original one is, and the parsed release date otherwise; so a valid
  parsed release date is stored unchanged.
\<close>

theorem scanAudioFile_release_date:
  assumes "getLastWriteTime env f = Inr lastWriteTime"
    and "forceScan ctx \<or> \<not> upToDate st s f lastWriteTime"
    and "parse env f = Some trackInfo"
    and "\<not> duplicateRecording st s f trackInfo"
    and "audioStreams trackInfo \<noteq> []"
    and "duration trackInfo \<noteq> 0"
  shows "map_option track_date (findByPath (fst (scanAudioFile st env f (s, ctx))) f)
         = Some (if \<not> isValid (date trackInfo) \<and> isValid (originalDate trackInfo)
                 then originalDate trackInfo else date trackInfo)"
proof -
  have "scanAudioFile st env f (s, ctx)
        = updateTrack st env f lastWriteTime trackInfo (findByPath s f)
            (s, ctx\<lparr>stats := (stats ctx)\<lparr>scans := scans (stats ctx) + 1\<rparr>\<rparr>)"
    using assms by (auto simp: scanAudioFile_def Let_def)
  then show ?thesis
    using updateTrack_date [OF refl, of st env f lastWriteTime trackInfo s] by simp
qed

theorem scanAudioFile_release_date_witness:
  "map_option track_date
     (findByPath (fst (scanAudioFile exSettings exEnv ''/music/d.mp3'' (exSession, exContext)))
        ''/music/d.mp3'') = Some (Date 1999 1 1)
   \<and> map_option track_date
     (findByPath (fst (scanAudioFile exSettings exEnv ''/music/e.mp3'' (exSession, exContext)))
        ''/music/e.mp3'') = Some (Date 2001 5 4)"
proof -
  have up: "\<not> upToDate exSettings exSession ''/music/d.mp3'' 5000"
           "\<not> upToDate exSettings exSession ''/music/e.mp3'' 5000"
    by (simp_all add: upToDate_def findByPath_def exSession_def exTrack_def)
  have nd: "\<not> duplicateRecording exSettings exSession ''/music/d.mp3'' exTrackInfo"
       "\<not> duplicateRecording exSettings exSession ''/music/e.mp3''
            (exTrackInfo\<lparr>album := Some \<lparr>albumName = [], musicBrainzAlbumID = None\<rparr>,
                         date := Date 2001 5 4\<rparr>)"
    by (simp_all add: duplicateRecording_def exTrackInfo_def)
  have a: "map_option track_date
     (findByPath (fst (scanAudioFile exSettings exEnv ''/music/d.mp3'' (exSession, exContext)))
        ''/music/d.mp3'') = Some (Date 1999 1 1)"
    using scanAudioFile_release_date
            [of exEnv "''/music/d.mp3''" 5000 exContext exSettings exSession exTrackInfo]
          up(1) nd(1)
    by (simp add: exEnv_def exTrackInfo_def)
  have b: "map_option track_date
     (findByPath (fst (scanAudioFile exSettings exEnv ''/music/e.mp3'' (exSession, exContext)))
        ''/music/e.mp3'') = Some (Date 2001 5 4)"
    using scanAudioFile_release_date
            [of exEnv "''/music/e.mp3''" 5000 exContext exSettings exSession
                "exTrackInfo\<lparr>album := Some \<lparr>albumName = [], musicBrainzAlbumID = None\<rparr>,
                             date := Date 2001 5 4\<rparr>"]
          up(2) nd(2)
    by (simp add: exEnv_def exTrackInfo_def)
  show ?thesis using a b by simp
qed

text \<open>
  C10. A parsed record whose album information is present with an empty album name and no
  album MBID: release resolution returns no release and leaves the catalog as it is,
  whatever the catalog holds; the scan of the file gives exactly the result it gives when
  the record carries no album information; and when the record reaches the upsert, the
  track stored for the file has no release.
\<close>

theorem scanAudioFile_empty_album:
  assumes "parse env f = Some trackInfo"
    and "album trackInfo = Some a"
    and "albumName a = []"
    and "musicBrainzAlbumID a = None"
  shows "getOrCreateRelease s a = (None, s)
         \<and> scanAudioFile st env f (s, ctx)
           = scanAudioFile st (env\<lparr>parse := (parse env)(f \<mapsto> trackInfo\<lparr>album := None\<rparr>)\<rparr>) f (s, ctx)
         \<and> ((\<exists>lastWriteTime. getLastWriteTime env f = Inr lastWriteTime
                \<and> (forceScan ctx \<or> \<not> upToDate st s f lastWriteTime))
             \<and> \<not> duplicateRecording st s f trackInfo
             \<and> audioStreams trackInfo \<noteq> [] \<and> duration trackInfo \<noteq> 0
             \<longrightarrow> map_option track_release
                   (findByPath (fst (scanAudioFile st env f (s, ctx))) f) = Some None)"
proof -
  have dup: "duplicateRecording st s f (trackInfo\<lparr>album := None\<rparr>) = duplicateRecording st s f trackInfo"
    by (simp add: duplicateRecording_def)
  have upd: "\<And>lwt track sc. updateTrack st env f lwt trackInfo track sc
         = updateTrack st (env\<lparr>parse := (parse env)(f \<mapsto> trackInfo\<lparr>album := None\<rparr>)\<rparr>) f lwt
             (trackInfo\<lparr>album := None\<rparr>) track sc"
    using updateTrack_album_irrelevant [OF assms(2-4)] by blast
  have eq: "scanAudioFile st env f (s, ctx)
           = scanAudioFile st (env\<lparr>parse := (parse env)(f \<mapsto> trackInfo\<lparr>album := None\<rparr>)\<rparr>) f (s, ctx)"
    using assms(1) dup upd
    by (cases "getLastWriteTime env f") (simp_all add: scanAudioFile_def Let_def)
  have rel: "map_option track_release (findByPath (fst (scanAudioFile st env f (s, ctx))) f) = Some None"
    if "getLastWriteTime env f = Inr lastWriteTime"
      and "forceScan ctx \<or> \<not> upToDate st s f lastWriteTime"
      and "\<not> duplicateRecording st s f trackInfo"
      and "audioStreams trackInfo \<noteq> []" and "duration trackInfo \<noteq> 0"
    for lastWriteTime
  proof -
    have "scanAudioFile st env f (s, ctx)
          = updateTrack st env f lastWriteTime trackInfo (findByPath s f)
              (s, ctx\<lparr>stats := (stats ctx)\<lparr>scans := scans (stats ctx) + 1\<rparr>\<rparr>)"
      using assms(1) that by (auto simp: scanAudioFile_def Let_def)
    then show ?thesis
      using updateTrack_no_release [OF refl assms(2-4), of st env f lastWriteTime s] by simp
  qed
  show ?thesis
    using getOrCreateRelease_no_album [OF assms(3,4), of s] eq rel by blast
qed

theorem scanAudioFile_empty_album_witness:
  "getOrCreateRelease exSession \<lparr>albumName = [], musicBrainzAlbumID = None\<rparr> = (None, exSession)
   \<and> map_option track_release
       (findByPath (fst (scanAudioFile exSettings exEnv ''/music/e.mp3'' (exSession, exContext)))
          ''/music/e.mp3'') = Some None
   \<and> scanAudioFile exSettings exEnv ''/music/e.mp3'' (exSession, exContext)
     = scanAudioFile exSettings
         (exEnv\<lparr>parse := (parse exEnv)(''/music/e.mp3'' \<mapsto>
             exTrackInfo\<lparr>album := Some \<lparr>albumName = [], musicBrainzAlbumID = None\<rparr>,
                          date := Date 2001 5 4, album := None\<rparr>)\<rparr>)
         ''/music/e.mp3'' (exSession, exContext)"
proof -
  have up: "\<not> upToDate exSettings exSession ''/music/e.mp3'' 5000"
    by (simp add: upToDate_def findByPath_def exSession_def exTrack_def)
  have nd: "\<not> duplicateRecording exSettings exSession ''/music/e.mp3''
            (exTrackInfo\<lparr>album := Some \<lparr>albumName = [], musicBrainzAlbumID = None\<rparr>,
                         date := Date 2001 5 4\<rparr>)"
    by (simp add: duplicateRecording_def exTrackInfo_def)
  have lw: "getLastWriteTime exEnv ''/music/e.mp3'' = Inr 5000"
    and pa: "parse exEnv ''/music/e.mp3''
             = Some (exTrackInfo\<lparr>album := Some \<lparr>albumName = [], musicBrainzAlbumID = None\<rparr>,
                                 date := Date 2001 5 4\<rparr>)"
    by (simp_all add: exEnv_def)
  have au: "audioStreams exTrackInfo \<noteq> []" "duration exTrackInfo \<noteq> 0"
    by (simp_all add: exTrackInfo_def)
  have al: "album (exTrackInfo\<lparr>album := Some \<lparr>albumName = [], musicBrainzAlbumID = None\<rparr>,
                                date := Date 2001 5 4\<rparr>)
            = Some \<lparr>albumName = [], musicBrainzAlbumID = None\<rparr>"
    "albumName \<lparr>albumName = [], musicBrainzAlbumID = None\<rparr> = []"
    "musicBrainzAlbumID \<lparr>albumName = [], musicBrainzAlbumID = None\<rparr> = None"
    by simp_all
  note th = scanAudioFile_empty_album [OF pa al, of exSession exSettings exContext]
  have reached: "(\<exists>lastWriteTime. getLastWriteTime exEnv ''/music/e.mp3'' = Inr lastWriteTime
                   \<and> (forceScan exContext
                        \<or> \<not> upToDate exSettings exSession ''/music/e.mp3'' lastWriteTime))
                 \<and> \<not> duplicateRecording exSettings exSession ''/music/e.mp3''
                      (exTrackInfo\<lparr>album := Some \<lparr>albumName = [], musicBrainzAlbumID = None\<rparr>,
                                   date := Date 2001 5 4\<rparr>)
                 \<and> audioStreams (exTrackInfo\<lparr>album := Some \<lparr>albumName = [], musicBrainzAlbumID = None\<rparr>,
                                   date := Date 2001 5 4\<rparr>) \<noteq> []
                 \<and> duration (exTrackInfo\<lparr>album := Some \<lparr>albumName = [], musicBrainzAlbumID = None\<rparr>,
                                   date := Date 2001 5 4\<rparr>) \<noteq> 0"
    using up nd lw au by simp
  show ?thesis using th reached by blast
qed

section \<open>Progress reports\<close>

lemma updateTrack_context:
  "snd (updateTrack st env f lwt ti track sc)
   = (case track of
        None \<Rightarrow> (snd sc)\<lparr>stats := (stats (snd sc))\<lparr>additions := additions (stats (snd sc)) + 1\<rparr>\<rparr>
      | Some t \<Rightarrow> (snd sc)\<lparr>stats := (stats (snd sc))\<lparr>updates := updates (stats (snd sc)) + 1\<rparr>\<rparr>)"
  by (cases track; cases "createTrack (fst sc) f") (simp_all add: updateTrack_def Let_def)

lemma scanAudioFile_step_stats:
  "currentStepStats (snd (scanAudioFile st env f sc)) = currentStepStats (snd sc)
   \<and> filesScanned (stats (snd (scanAudioFile st env f sc))) = filesScanned (stats (snd sc))"
proof -
  have rm: "currentStepStats (snd (removeIfExists track x)) = currentStepStats (snd x)
            \<and> filesScanned (stats (snd (removeIfExists track x))) = filesScanned (stats (snd x))"
    for track x
    by (cases track) (simp_all add: removeIfExists_def)
  have up: "currentStepStats (snd (updateTrack st env f lwt ti track x)) = currentStepStats (snd x)
            \<and> filesScanned (stats (snd (updateTrack st env f lwt ti track x))) = filesScanned (stats (snd x))"
    for lwt ti track x
    by (cases track) (simp_all add: updateTrack_context)
  show ?thesis
    using rm up
    by (simp add: scanAudioFile_def Let_def addError_def case_prod_beta
             split: sum.splits option.splits)
qed

lemma processEntry_calls:
  "processEntry st env e r = (continue, r') \<Longrightarrow>
     continue = (\<not> abortScan e)
     \<and> totalElems (currentStepStats (scanContext r')) = totalElems (currentStepStats (scanContext r))
     \<and> (if \<not> abortScan e \<and> ec e = None \<and> hasFileAnyExtension (entryPath e) (supportedExtensions st)
        then processedElems (currentStepStats (scanContext r'))
               = processedElems (currentStepStats (scanContext r)) + 1
             \<and> progressCalls r' = progressCalls r @ [currentStepStats (scanContext r')]
        else processedElems (currentStepStats (scanContext r'))
               = processedElems (currentStepStats (scanContext r))
             \<and> progressCalls r' = progressCalls r)"
  using scanAudioFile_step_stats [of st env "entryPath e" "(session r, scanContext r)"]
  by (auto simp: processEntry_def addError_def Let_def split: option.splits prod.splits if_splits)

lemma upt_from_0: "[0..<Suc n] = 0 # map Suc [0..<n]"
  by (simp add: upt_conv_Cons map_Suc_upt del: upt_Suc)

lemma explore_calls:
  "progressCalls (exploreFilesRecursive (processEntry st env) entries r)
   = progressCalls r @
     map (\<lambda>k. \<lparr>totalElems = totalElems (currentStepStats (scanContext r)),
               processedElems = processedElems (currentStepStats (scanContext r)) + of_nat (Suc k)\<rparr>)
       [0..<length (walked st entries)]"
proof (induction entries arbitrary: r)
  case Nil
  then show ?case by (simp add: walked_def)
next
  case (Cons e es)
  obtain continue r' where pe: "processEntry st env e r = (continue, r')"
    by (cases "processEntry st env e r")
  note facts = processEntry_calls [OF pe]
  show ?case
  proof (cases "abortScan e")
    case True
    then have "continue = False" and "progressCalls r' = progressCalls r"
      using facts by simp_all
    moreover have "walked st (e # es) = []" using True by (simp add: walked_def)
    ultimately show ?thesis using pe by simp
  next
    case False
    then have go: "exploreFilesRecursive (processEntry st env) (e # es) r
                   = exploreFilesRecursive (processEntry st env) es r'"
      using pe facts by simp
    have tot: "totalElems (currentStepStats (scanContext r'))
               = totalElems (currentStepStats (scanContext r))"
      using facts by simp
    show ?thesis
    proof (cases "ec e = None \<and> hasFileAnyExtension (entryPath e) (supportedExtensions st)")
      case True
      have w: "walked st (e # es) = e # walked st es"
        using True False by (simp add: walked_def)
      have pr: "processedElems (currentStepStats (scanContext r'))
                = processedElems (currentStepStats (scanContext r)) + 1"
        and calls: "progressCalls r' = progressCalls r @ [currentStepStats (scanContext r')]"
        using facts True False by simp_all
      have cs: "currentStepStats (scanContext r')
                = \<lparr>totalElems = totalElems (currentStepStats (scanContext r)),
                   processedElems = processedElems (currentStepStats (scanContext r)) + 1\<rparr>"
        using tot pr by (cases "currentStepStats (scanContext r')") simp
      have "progressCalls (exploreFilesRecursive (processEntry st env) es r')
            = (progressCalls r @ [currentStepStats (scanContext r')]) @
              map (\<lambda>k. \<lparr>totalElems = totalElems (currentStepStats (scanContext r)),
                        processedElems = processedElems (currentStepStats (scanContext r)) + 1
                                         + of_nat (Suc k)\<rparr>)
                [0..<length (walked st es)]"
        using Cons.IH [of r'] calls tot pr by simp
      also have "\<dots> = progressCalls r @
              map (\<lambda>k. \<lparr>totalElems = totalElems (currentStepStats (scanContext r)),
                        processedElems = processedElems (currentStepStats (scanContext r))
                                         + of_nat (Suc k)\<rparr>)
                [0..<Suc (length (walked st es))]"
        unfolding upt_from_0 cs by (simp add: o_def add.assoc)
      finally show ?thesis using go w by simp
    next
      case False2: False
      have w: "walked st (e # es) = walked st es"
        using False2 False by (auto simp: walked_def)
      have "processedElems (currentStepStats (scanContext r'))
                = processedElems (currentStepStats (scanContext r))"
        and "progressCalls r' = progressCalls r"
        using facts False2 by auto
      then show ?thesis using Cons.IH [of r'] go w tot by simp
    qed
  qed
qed

lemma ex_extensions:
  "hasFileAnyExtension ''/music/a.mp3'' (supportedExtensions exSettings)"
  "hasFileAnyExtension ''/music/c.mp3'' (supportedExtensions exSettings)"
  "\<not> hasFileAnyExtension ''/music/notes.txt'' (supportedExtensions exSettings)"
  by (simp_all add: hasFileAnyExtension_def extension_def filename_def exSettings_def)

text \<open>
  C9, amended. During a run the progress callback is called once for each entry that the
  walker hands over before the abort flag is seen set, that has no error code and has an
  accepted extension, whether \<^verbatim>\<open>scanAudioFile\<close> skips the file or not, and for no other
  entry. Each call follows an increment of the processed-elements total: the call number
  \<open>k + 1\<close> reports the total the run started with plus \<open>k + 1\<close>, next to the expected
  total set at the start of the run.
\<close>

theorem process_progress_calls:
  "progressCalls (process st env entries r)
   = progressCalls r @
     map (\<lambda>k. \<lparr>totalElems = filesScanned (stats (scanContext r)),
               processedElems = processedElems (currentStepStats (scanContext r)) + of_nat (Suc k)\<rparr>)
       [0..<length (filter (\<lambda>e. ec e = None
                                \<and> hasFileAnyExtension (entryPath e) (supportedExtensions st))
                      (takeWhile (\<lambda>e. \<not> abortScan e) entries))]"
  using explore_calls [of st env entries
          "r\<lparr>scanContext := (scanContext r)\<lparr>currentStepStats := (currentStepStats (scanContext r))
               \<lparr>totalElems := filesScanned (stats (scanContext r))\<rparr>\<rparr>\<rparr>"]
  by (simp add: process_def walked_def)

theorem process_progress_calls_witness:
  "progressCalls (process exSettings exEnv exEntries exRun)
   = [\<lparr>totalElems = 2, processedElems = 1\<rparr>, \<lparr>totalElems = 2, processedElems = 2\<rparr>]"
  using process_progress_calls [of exSettings exEnv exEntries exRun] ex_extensions
  by (simp add: exEntries_def exEntry_def exRun_def exContext_def exStats_def upt_from_0)

text \<open>
  C9 as stated fails: the file \<^verbatim>\<open>/music/a.mp3\<close> is unchanged, \<^verbatim>\<open>scanAudioFile\<close> skips it
  (the skip counter goes to one and the catalog is as before), and the progress callback is
  called for it all the same.
\<close>

theorem process_skipped_file_reports_progress:
  "skips (stats (scanContext (process exSettings exEnv [exEntry] exRun))) = 1
   \<and> session (process exSettings exEnv [exEntry] exRun) = exSession
   \<and> progressCalls (process exSettings exEnv [exEntry] exRun)
     = [\<lparr>totalElems = 2, processedElems = 1\<rparr>]"
proof -
  have up: "upToDate exSettings exSession ''/music/a.mp3'' 5000"
    by (simp add: upToDate_def findByPath_def exSession_def exTrack_def exSettings_def)
  have lw: "getLastWriteTime exEnv ''/music/a.mp3'' = Inr 5000"
    by (simp add: exEnv_def)
  have sc: "scanAudioFile exSettings exEnv ''/music/a.mp3''
              (exSession, exContext\<lparr>currentStepStats := \<lparr>totalElems = 2, processedElems = 0\<rparr>\<rparr>)
            = (exSession, exContext\<lparr>currentStepStats := \<lparr>totalElems = 2, processedElems = 0\<rparr>,
                                    stats := exStats\<lparr>skips := 1\<rparr>\<rparr>)"
    using up lw by (simp add: scanAudioFile_def exContext_def exStats_def)
  have pe: "processEntry exSettings exEnv exEntry
              \<lparr>session = exSession,
               scanContext = exContext\<lparr>currentStepStats := \<lparr>totalElems = 2, processedElems = 0\<rparr>\<rparr>,
               progressCalls = []\<rparr>
            = (True, \<lparr>session = exSession,
                      scanContext = exContext\<lparr>currentStepStats := \<lparr>totalElems = 2, processedElems = 1\<rparr>,
                                            stats := exStats\<lparr>skips := 1\<rparr>\<rparr>,
                      progressCalls = [\<lparr>totalElems = 2, processedElems = 1\<rparr>]\<rparr>)"
    using sc ex_extensions(1) by (simp add: processEntry_def exEntry_def exContext_def)
  have "process exSettings exEnv [exEntry] exRun
        = \<lparr>session = exSession,
           scanContext = exContext\<lparr>currentStepStats := \<lparr>totalElems = 2, processedElems = 1\<rparr>,
                                 stats := exStats\<lparr>skips := 1\<rparr>\<rparr>,
           progressCalls = [\<lparr>totalElems = 2, processedElems = 1\<rparr>]\<rparr>"
    using pe by (simp add: process_def exRun_def exContext_def exStats_def)
  then show ?thesis by (simp add: exStats_def)
qed

end
